theory Spec2Isabelle
  imports Main
begin

section \<open>Data model\<close>

text \<open>
  The controller of \<^verbatim>\<open>cmd/azure-keyvault-controller/controller/azureKeyVaultSecret.go\<close>.
  Kubernetes objects are records over a common \<open>ObjectMeta\<close>; a Go pointer that may be
  nil is an \<open>option\<close>; a Go \<open>(value, error)\<close> result is a sum with the error on the left.
\<close>

record OwnerReference =
  Kind :: string
  OwnerName :: string
  OwnerUID :: string
  IsController :: bool

record ObjectMeta =
  Namespace :: string
  Name :: string
  UID :: string
  ResourceVersion :: string
  OwnerReferences :: "OwnerReference list"

text \<open>
  \<open>akv.AzureKeyVaultObjectType\<close> is a string type of which the switch in
  \<open>getSecretFromKeyVault\<close> names four constants; the constants are declared in the API
  package, so they are constructors here and every other string is \<open>OtherObjectType\<close>.
\<close>

datatype AzureKeyVaultObjectType =
    AzureKeyVaultObjectTypeSecret
  | AzureKeyVaultObjectTypeCertificate
  | AzureKeyVaultObjectTypeKey
  | AzureKeyVaultObjectTypeMultiKeyValueSecret
  | OtherObjectType string

record AzureKeyVaultObject =
  ObjectName :: string
  ObjectType :: AzureKeyVaultObjectType

record AzureKeyVault =
  VaultName :: string
  Object :: AzureKeyVaultObject

record AzureKeyVaultOutputSecret =
  OutputSecretName :: string
  OutputSecretDataKey :: string

record AzureKeyVaultOutputConfigMap =
  OutputConfigMapName :: string
  OutputConfigMapDataKey :: string

record AzureKeyVaultOutput =
  OutputSecret :: AzureKeyVaultOutputSecret
  OutputConfigMap :: AzureKeyVaultOutputConfigMap
  Transform :: "string list"

record AzureKeyVaultSecretSpec =
  Vault :: AzureKeyVault
  Output :: AzureKeyVaultOutput

record AzureKeyVaultSecretStatus =
  SecretName :: string
  SecretHash :: string
  ConfigMapName :: string
  ConfigMapHash :: string
  LastAzureUpdate :: nat

record AzureKeyVaultSecret = ObjectMeta +
  Spec :: AzureKeyVaultSecretSpec
  Status :: AzureKeyVaultSecretStatus

text \<open>Payloads: \<open>map[string][]byte\<close> for secrets, \<open>map[string]string\<close> for config maps.\<close>

type_synonym ByteValues = "(string \<times> string) list"
type_synonym StringValues = "(string \<times> string) list"

record Secret = ObjectMeta +
  SecretType :: string
  Data :: ByteValues

record ConfigMap = ObjectMeta +
  ConfigMapData :: StringValues

text \<open>The values a \<open>metav1.Object\<close> variable of \<open>syncAzureKeyVaultSecret\<close> can hold.\<close>

datatype OutputObject = SecretObject Secret | ConfigMapObject ConfigMap

text \<open>
  What an informer callback receives as \<open>interface{}\<close>: the resource itself, something
  else, or a \<open>cache.DeletedFinalStateUnknown\<close> tombstone with a key around either.
\<close>

datatype Payload = IsAzureKeyVaultSecret AzureKeyVaultSecret | NotAzureKeyVaultSecret

datatype Obj = Plain Payload | DeletedFinalStateUnknown string Payload

subsection \<open>Errors, events, log lines, requests\<close>

datatype Message =
    MessageAzureKeyVaultSecretSynced
  | MessageAzureKeyVaultSecretSyncedWithAzureKeyVault
  | MessageResourceExists string
  | FailedAzureKeyVault string string

datatype error =
    NotFound string
  | InvalidResourceKey string
  | CouldntGetObjectFromTombstone
  | TombstoneContainedObjectThatIsNotAAzureKeyVaultSecret
  | ObjectHasNoMeta
  | Errorf Message
  | FailedToGetExistingSecret string error
  | FailedToUpdateExistingSecret string error
  | FailedToUpdateSecret error
  | ObjectTypeNotSupported AzureKeyVaultObjectType
  | OtherError string

datatype panic = NilPointerDereference

datatype 'a outcome = Returns 'a | Panics panic

datatype EventType = EventTypeNormal | EventTypeWarning

datatype Reason = SuccessSynced | ErrResourceExists | ErrAzureVault

datatype InvolvedObject =
    OnSecret Secret
  | OnConfigMap ConfigMap
  | OnAzureKeyVaultSecret AzureKeyVaultSecret

datatype Event = Event InvolvedObject EventType Reason Message

text \<open>The log lines at error, warning and info level (debug lines are not modelled).\<close>

datatype LogEntry =
    ErrorFailedToConvert error
  | HandleError error
  | WarningMessage Message
  | ErrorFailedToGetSecretValue string string string error
  | InfoSecretHasChanged string
  | WarningSecretValueWillChange string
  | WarningFailedToCreateSecret error
  | ErrorNoLongerExists string

text \<open>The calls made on the cluster clients, in the order they are made.\<close>

datatype Request =
    SecretsGet string string
  | SecretsUpdate string Secret
  | ConfigMapsGet string string
  | ConfigMapsUpdate string ConfigMap
  | UpdateStatus string AzureKeyVaultSecret

subsection \<open>Work queues\<close>

text \<open>
  Modelled from the spec: the rate-limited work queue of section 6 (\<open>Enqueue(key)\<close>,
  \<open>Forget(key)\<close>) is a library collaborator. It holds the pending keys, de-duplicated
  (section 3, WorkKey), and the retry/backoff state: the keys for which a retry is
  scheduled, each with its count of requeues. A requeue with backoff enters a key there,
  \<open>Forget\<close> removes its entry (section 4.1).
\<close>

record workqueue =
  pending :: "string list"
  backoff :: "string \<rightharpoonup> nat"

definition Add :: "workqueue \<Rightarrow> string \<Rightarrow> workqueue" where
  "Add q key = (if key \<in> set (pending q) then q else q\<lparr>pending := pending q @ [key]\<rparr>)"

definition Forget :: "workqueue \<Rightarrow> string \<Rightarrow> workqueue" where
  "Forget q key = q\<lparr>backoff := (backoff q)(key := None)\<rparr>"

definition AddRateLimited :: "workqueue \<Rightarrow> string \<Rightarrow> workqueue" where
  "AddRateLimited q key =
     q\<lparr>backoff := (backoff q)(key \<mapsto> (case backoff q key of None \<Rightarrow> 1 | Some n \<Rightarrow> Suc n))\<rparr>"

definition NumRequeues :: "workqueue \<Rightarrow> string \<Rightarrow> nat" where
  "NumRequeues q key = (case backoff q key of None \<Rightarrow> 0 | Some n \<Rightarrow> n)"

text \<open>
  \<open>cache.MetaNamespaceKeyFunc\<close>: a tombstone answers with its own key, an object with
  \<open>namespace/name\<close> (the name alone in the empty namespace), anything else is an error.
\<close>

fun MetaNamespaceKeyFunc :: "Obj \<Rightarrow> error + string" where
  "MetaNamespaceKeyFunc (DeletedFinalStateUnknown key _) = Inr key"
| "MetaNamespaceKeyFunc (Plain (IsAzureKeyVaultSecret a)) =
     (if Namespace a \<noteq> [] then Inr (Namespace a @ ''/'' @ Name a) else Inr (Name a))"
| "MetaNamespaceKeyFunc (Plain NotAzureKeyVaultSecret) = Inl ObjectHasNoMeta"

text \<open>\<open>queue.Enqueue\<close>: computes the key of the object and adds it; no key, no add.\<close>

definition Enqueue :: "workqueue \<Rightarrow> Obj \<Rightarrow> workqueue" where
  "Enqueue q obj = (case MetaNamespaceKeyFunc obj of Inl err \<Rightarrow> q | Inr key \<Rightarrow> Add q key)"

text \<open>\<open>cache.SplitMetaNamespaceKey\<close>: one part is a name, two are namespace and name.\<close>

fun splitOn :: "char \<Rightarrow> string \<Rightarrow> string list" where
  "splitOn c [] = [[]]"
| "splitOn c (x # xs) =
     (if x = c then [] # splitOn c xs
      else (case splitOn c xs of [] \<Rightarrow> [[x]] | p # ps \<Rightarrow> (x # p) # ps))"

definition SplitMetaNamespaceKey :: "string \<Rightarrow> error + (string \<times> string)" where
  "SplitMetaNamespaceKey key =
     (case splitOn (CHR ''/'') key of
        [name] \<Rightarrow> Inr ([], name)
      | [namespace, name] \<Rightarrow> Inr (namespace, name)
      | _ \<Rightarrow> Inl (InvalidResourceKey key))"

subsection \<open>The controller and its collaborators\<close>

text \<open>
  The state reached through the receiver \<open>c *Controller\<close>: the two queues, the lister's
  cache, the cluster's objects behind the clients, the recorder, the clock, and the log.
\<close>

record Controller =
  akvsCrdQueue :: workqueue
  azureKeyVaultQueue :: workqueue
  azureKeyVaultSecretLister :: "(string \<times> string) \<rightharpoonup> AzureKeyVaultSecret"
  akvsClient :: "(string \<times> string) \<rightharpoonup> AzureKeyVaultSecret"
  kubeSecrets :: "(string \<times> string) \<rightharpoonup> Secret"
  kubeConfigMaps :: "(string \<times> string) \<rightharpoonup> ConfigMap"
  recorder :: "Event list"
  clock :: nat
  logged :: "LogEntry list"
  requests :: "Request list"

definition logs :: "LogEntry \<Rightarrow> Controller \<Rightarrow> Controller" where
  "logs l c = c\<lparr>logged := logged c @ [l]\<rparr>"

definition recordEvent :: "Event \<Rightarrow> Controller \<Rightarrow> Controller" where
  "recordEvent e c = c\<lparr>recorder := recorder c @ [e]\<rparr>"

definition request :: "Request \<Rightarrow> Controller \<Rightarrow> Controller" where
  "request r c = c\<lparr>requests := requests c @ [r]\<rparr>"

text \<open>
  Modelled from the spec: the native object client and the status-update client of
  section 6, as an object store. A Get or an Update of an object that is not there is
  NotFound; an Update replaces the object; UpdateStatus replaces the status of the stored
  resource. Every call is recorded in \<open>requests\<close>.
\<close>

definition Secrets_Get :: "Controller \<Rightarrow> string \<Rightarrow> string \<Rightarrow> (error + Secret) \<times> Controller" where
  "Secrets_Get c ns name =
     (case kubeSecrets c (ns, name) of
        None \<Rightarrow> (Inl (NotFound name), request (SecretsGet ns name) c)
      | Some s \<Rightarrow> (Inr s, request (SecretsGet ns name) c))"

definition Secrets_Update :: "Controller \<Rightarrow> string \<Rightarrow> Secret \<Rightarrow> (error + Secret) \<times> Controller" where
  "Secrets_Update c ns s =
     (case kubeSecrets c (ns, Name s) of
        None \<Rightarrow> (Inl (NotFound (Name s)), request (SecretsUpdate ns s) c)
      | Some _ \<Rightarrow>
          (Inr s, request (SecretsUpdate ns s) (c\<lparr>kubeSecrets := (kubeSecrets c)((ns, Name s) \<mapsto> s)\<rparr>)))"

definition ConfigMaps_Update ::
  "Controller \<Rightarrow> string \<Rightarrow> ConfigMap \<Rightarrow> (error + ConfigMap) \<times> Controller" where
  "ConfigMaps_Update c ns cm =
     (case kubeConfigMaps c (ns, Name cm) of
        None \<Rightarrow> (Inl (NotFound (Name cm)), request (ConfigMapsUpdate ns cm) c)
      | Some _ \<Rightarrow>
          (Inr cm,
           request (ConfigMapsUpdate ns cm) (c\<lparr>kubeConfigMaps := (kubeConfigMaps c)((ns, Name cm) \<mapsto> cm)\<rparr>)))"

definition AzureKeyVaultSecrets_UpdateStatus ::
  "Controller \<Rightarrow> string \<Rightarrow> AzureKeyVaultSecret \<Rightarrow> error option \<times> Controller" where
  "AzureKeyVaultSecrets_UpdateStatus c ns akvsCopy =
     (case akvsClient c (ns, Name akvsCopy) of
        None \<Rightarrow> (Some (NotFound (Name akvsCopy)), request (UpdateStatus ns akvsCopy) c)
      | Some stored \<Rightarrow>
          (None,
           request (UpdateStatus ns akvsCopy)
             (c\<lparr>akvsClient := (akvsClient c)((ns, Name akvsCopy) \<mapsto> stored\<lparr>Status := Status akvsCopy\<rparr>)\<rparr>)))"

text \<open>
  Modelled from the spec: between two passes the informer delivers the stored resources
  to the lister's cache (section 5: a reconciler always re-reads current state).
\<close>

definition informerResync :: "Controller \<Rightarrow> Controller" where
  "informerResync c = c\<lparr>azureKeyVaultSecretLister := akvsClient c\<rparr>"

text \<open>
  The handlers of the four vault object types; \<open>c.vaultService\<close> is part of the
  environment below.
\<close>

type_synonym Transformator = "string list"

datatype KubernetesHandler =
    AzureSecretHandler AzureKeyVaultSecret Transformator
  | AzureCertificateHandler AzureKeyVaultSecret
  | AzureKeyHandler AzureKeyVaultSecret
  | AzureMultiKeySecretHandler AzureKeyVaultSecret

text \<open>
  Modelled from the spec: the functions of the controller package and of its libraries
  that this file calls and does not define are parameters: get-or-create of the native
  objects (section 4.2), the ownership test, the transformation factory and the handlers'
  two capabilities (section 4.4), the two digests (section 4.5), the builders of the
  objects to write, and the naming functions.
\<close>

record Env =
  getOrCreateKubernetesSecret :: "Controller \<Rightarrow> AzureKeyVaultSecret \<Rightarrow> (error + Secret) \<times> Controller"
  getOrCreateKubernetesConfigMap :: "Controller \<Rightarrow> AzureKeyVaultSecret \<Rightarrow> (error + ConfigMap) \<times> Controller"
  isOwnedBy :: "OutputObject \<Rightarrow> AzureKeyVaultSecret \<Rightarrow> bool"
  CreateTransformator :: "AzureKeyVaultOutput \<Rightarrow> error + Transformator"
  HandleSecret :: "KubernetesHandler \<Rightarrow> error + ByteValues"
  HandleConfigMap :: "KubernetesHandler \<Rightarrow> error + StringValues"
  getMD5HashOfByteValues :: "ByteValues \<Rightarrow> string"
  getMD5HashOfStringValues :: "StringValues \<Rightarrow> string"
  updateExistingSecret :: "AzureKeyVaultSecret \<Rightarrow> ByteValues \<Rightarrow> Secret \<Rightarrow> error + Secret"
  createNewConfigMap :: "AzureKeyVaultSecret \<Rightarrow> StringValues \<Rightarrow> ConfigMap"
  determineSecretName :: "AzureKeyVaultSecret \<Rightarrow> string"
  determineConfigMapName :: "AzureKeyVaultSecret \<Rightarrow> string"

section \<open>Event dispatcher\<close>

fun convertToAzureKeyVaultSecret :: "Obj \<Rightarrow> error + AzureKeyVaultSecret" where
  "convertToAzureKeyVaultSecret (Plain (IsAzureKeyVaultSecret secret)) = Inr secret"
| "convertToAzureKeyVaultSecret (Plain NotAzureKeyVaultSecret) = Inl CouldntGetObjectFromTombstone"
| "convertToAzureKeyVaultSecret (DeletedFinalStateUnknown key (IsAzureKeyVaultSecret secret)) = Inr secret"
| "convertToAzureKeyVaultSecret (DeletedFinalStateUnknown key NotAzureKeyVaultSecret) =
     Inl TombstoneContainedObjectThatIsNotAAzureKeyVaultSecret"

definition akvsHasOutputSecret :: "AzureKeyVaultSecret \<Rightarrow> bool" where
  "akvsHasOutputSecret secret = (OutputSecretName (OutputSecret (Output (Spec secret))) \<noteq> [])"

definition akvsHasOutputConfigMap :: "AzureKeyVaultSecret \<Rightarrow> bool" where
  "akvsHasOutputConfigMap secret = (OutputConfigMapName (OutputConfigMap (Output (Spec secret))) \<noteq> [])"

definition akvsHasOutputDefined :: "AzureKeyVaultSecret \<Rightarrow> bool" where
  "akvsHasOutputDefined secret = (akvsHasOutputSecret secret \<or> akvsHasOutputConfigMap secret)"

text \<open>
  The callbacks keep the pointer that the conversion returned, nil after a failure, and
  go on after logging: \<open>converted\<close> is that pointer and the state after the log line.
  Reading a field through the nil pointer panics.
\<close>

definition converted :: "Controller \<Rightarrow> Obj \<Rightarrow> AzureKeyVaultSecret option \<times> Controller" where
  "converted c obj =
     (case convertToAzureKeyVaultSecret obj of
        Inl err \<Rightarrow> (None, logs (ErrorFailedToConvert err) c)
      | Inr secret \<Rightarrow> (Some secret, c))"

definition AddFunc :: "Controller \<Rightarrow> Obj \<Rightarrow> unit outcome \<times> Controller" where
  "AddFunc c obj =
     (case converted c obj of
        (None, c1) \<Rightarrow> (Panics NilPointerDereference, c1)
      | (Some secret, c1) \<Rightarrow>
          if akvsHasOutputDefined secret
          then (Returns (), c1\<lparr>akvsCrdQueue := Enqueue (akvsCrdQueue c1) obj\<rparr>)
          else (Returns (), c1))"

definition UpdateFunc :: "Controller \<Rightarrow> Obj \<Rightarrow> Obj \<Rightarrow> unit outcome \<times> Controller" where
  "UpdateFunc c old new =
     (case converted c new of (newSecret, c1) \<Rightarrow>
       (case converted c1 old of (oldSecret, c2) \<Rightarrow>
         (case newSecret of
            None \<Rightarrow> (Panics NilPointerDereference, c2)
          | Some newSecret \<Rightarrow>
             (case oldSecret of
                None \<Rightarrow> (Panics NilPointerDereference, c2)
              | Some oldSecret \<Rightarrow>
                  (if ResourceVersion newSecret = ResourceVersion oldSecret \<and> akvsHasOutputDefined newSecret
                   then (Returns (), c2\<lparr>azureKeyVaultQueue := Enqueue (azureKeyVaultQueue c2) new\<rparr>)
                   else if akvsHasOutputDefined newSecret \<or> akvsHasOutputDefined oldSecret
                   then (Returns (), c2\<lparr>akvsCrdQueue := Enqueue (akvsCrdQueue c2) new\<rparr>)
                   else (Returns (), c2))))))"

definition DeleteFunc :: "Controller \<Rightarrow> Obj \<Rightarrow> unit outcome \<times> Controller" where
  "DeleteFunc c obj =
     (case converted c obj of
        (None, c1) \<Rightarrow> (Panics NilPointerDereference, c1)
      | (Some secret, c1) \<Rightarrow>
          if akvsHasOutputDefined secret
          then (let c2 = c1\<lparr>akvsCrdQueue := Enqueue (akvsCrdQueue c1) obj\<rparr> in
                (case MetaNamespaceKeyFunc obj of
                   Inl err \<Rightarrow> (Returns (), logs (HandleError err) c2)
                 | Inr key \<Rightarrow> (Returns (), c2\<lparr>azureKeyVaultQueue := Forget (azureKeyVaultQueue c2) key\<rparr>)))
          else (Returns (), c1))"

section \<open>Resolving the declaring resource\<close>

definition getAzureKeyVaultSecret :: "Controller \<Rightarrow> string \<Rightarrow> error + AzureKeyVaultSecret" where
  "getAzureKeyVaultSecret c key =
     (case SplitMetaNamespaceKey key of
        Inl err \<Rightarrow> Inl (InvalidResourceKey key)
      | Inr (namespace, name) \<Rightarrow>
          (case azureKeyVaultSecretLister c (namespace, name) of
             None \<Rightarrow> Inl (NotFound name)
           | Some azureKeyVaultSecret \<Rightarrow> Inr azureKeyVaultSecret))"

fun IsNotFound :: "error \<Rightarrow> bool" where
  "IsNotFound (NotFound _) = True"
| "IsNotFound _ = False"

definition handleKeyVaultError :: "Controller \<Rightarrow> error \<Rightarrow> string \<Rightarrow> bool \<times> Controller" where
  "handleKeyVaultError c err key =
     (if IsNotFound err then (True, logs (ErrorNoLongerExists key) c) else (False, c))"

section \<open>Output reconciler\<close>

fun GetName :: "OutputObject \<Rightarrow> string" where
  "GetName (SecretObject s) = Name s"
| "GetName (ConfigMapObject cm) = Name cm"

text \<open>
  \<open>syncAzureKeyVaultSecret\<close>: the variable \<open>outputObject\<close> starts nil, the secret block
  assigns it, the config map block assigns it again, and the ownership test reads it once,
  after both blocks. With the variable still nil the test (or, should the test answer
  false, \<open>outputObject.GetName()\<close>) goes through a nil interface, a panic.
\<close>

definition syncAzureKeyVaultSecret ::
  "Env \<Rightarrow> Controller \<Rightarrow> string \<Rightarrow> error option outcome \<times> Controller" where
  "syncAzureKeyVaultSecret env c key =
     (case getAzureKeyVaultSecret c key of
        Inl err \<Rightarrow>
          (case handleKeyVaultError c err key of
             (exit, c') \<Rightarrow> if exit then (Returns None, c') else (Returns (Some err), c'))
      | Inr akvs \<Rightarrow>
          (case (if akvsHasOutputSecret akvs
                 then (case getOrCreateKubernetesSecret env c akvs of
                         (Inl err, c1) \<Rightarrow> (Inl err, c1)
                       | (Inr secret, c1) \<Rightarrow>
                           (Inr (Some (SecretObject secret)),
                            recordEvent (Event (OnSecret secret) EventTypeNormal SuccessSynced
                                           MessageAzureKeyVaultSecretSynced) c1))
                 else (Inr None, c)) of
             (Inl err, c1) \<Rightarrow> (Returns (Some err), c1)
           | (Inr outputObject1, c1) \<Rightarrow>
               (case (if akvsHasOutputConfigMap akvs
                      then (case getOrCreateKubernetesConfigMap env c1 akvs of
                              (Inl err, c2) \<Rightarrow> (Inl err, c2)
                            | (Inr cm, c2) \<Rightarrow>
                                (Inr (Some (ConfigMapObject cm)),
                                 recordEvent (Event (OnConfigMap cm) EventTypeNormal SuccessSynced
                                                MessageAzureKeyVaultSecretSynced) c2))
                      else (Inr outputObject1, c1)) of
                  (Inl err, c2) \<Rightarrow> (Returns (Some err), c2)
                | (Inr outputObject, c2) \<Rightarrow>
                    (case outputObject of
                       None \<Rightarrow> (Panics NilPointerDereference, c2)
                     | Some obj \<Rightarrow>
                         (if \<not> isOwnedBy env obj akvs
                          then (let msg = MessageResourceExists (GetName obj) in
                                (Returns (Some (Errorf msg)),
                                 recordEvent (Event (OnAzureKeyVaultSecret akvs) EventTypeWarning
                                                ErrResourceExists msg)
                                   (logs (WarningMessage msg) c2)))
                          else (Returns None, c2))))))"

section \<open>Handler selection\<close>

definition getSecretFromKeyVault :: "Env \<Rightarrow> AzureKeyVaultSecret \<Rightarrow> error + ByteValues" where
  "getSecretFromKeyVault env azureKeyVaultSecret =
     (case ObjectType (Object (Vault (Spec azureKeyVaultSecret))) of
        AzureKeyVaultObjectTypeSecret \<Rightarrow>
          (case CreateTransformator env (Output (Spec azureKeyVaultSecret)) of
             Inl err \<Rightarrow> Inl err
           | Inr transformator \<Rightarrow> HandleSecret env (AzureSecretHandler azureKeyVaultSecret transformator))
      | AzureKeyVaultObjectTypeCertificate \<Rightarrow> HandleSecret env (AzureCertificateHandler azureKeyVaultSecret)
      | AzureKeyVaultObjectTypeKey \<Rightarrow> HandleSecret env (AzureKeyHandler azureKeyVaultSecret)
      | AzureKeyVaultObjectTypeMultiKeyValueSecret \<Rightarrow>
          HandleSecret env (AzureMultiKeySecretHandler azureKeyVaultSecret)
      | OtherObjectType t \<Rightarrow> Inl (ObjectTypeNotSupported (OtherObjectType t)))"

definition getConfigMapFromKeyVault :: "Env \<Rightarrow> AzureKeyVaultSecret \<Rightarrow> error + StringValues" where
  "getConfigMapFromKeyVault env azureKeyVaultSecret =
     (case ObjectType (Object (Vault (Spec azureKeyVaultSecret))) of
        AzureKeyVaultObjectTypeSecret \<Rightarrow>
          (case CreateTransformator env (Output (Spec azureKeyVaultSecret)) of
             Inl err \<Rightarrow> Inl err
           | Inr transformator \<Rightarrow> HandleConfigMap env (AzureSecretHandler azureKeyVaultSecret transformator))
      | AzureKeyVaultObjectTypeCertificate \<Rightarrow> HandleConfigMap env (AzureCertificateHandler azureKeyVaultSecret)
      | AzureKeyVaultObjectTypeKey \<Rightarrow> HandleConfigMap env (AzureKeyHandler azureKeyVaultSecret)
      | AzureKeyVaultObjectTypeMultiKeyValueSecret \<Rightarrow>
          HandleConfigMap env (AzureMultiKeySecretHandler azureKeyVaultSecret)
      | OtherObjectType t \<Rightarrow> Inl (ObjectTypeNotSupported (OtherObjectType t)))"

section \<open>Status persister\<close>

text \<open>
  Each updater builds \<open>akvsCopy\<close> from the resource it was given and sends the copy;
  the resource it was given, the one the lister holds, is a value and stays as it is.
\<close>

definition updateAzureKeyVaultSecretStatus ::
  "Controller \<Rightarrow> AzureKeyVaultSecret \<Rightarrow> string \<Rightarrow> string \<Rightarrow> string \<Rightarrow> string \<Rightarrow> error option \<times> Controller" where
  "updateAzureKeyVaultSecretStatus c akvs secretName cmName secretHash cmHash =
     (let akvsCopy = akvs\<lparr>Status := (Status akvs)\<lparr>SecretName := secretName, SecretHash := secretHash,
                                    ConfigMapName := cmName, ConfigMapHash := cmHash,
                                    LastAzureUpdate := clock c\<rparr>\<rparr>
      in AzureKeyVaultSecrets_UpdateStatus c (Namespace akvs) akvsCopy)"

definition updateAzureKeyVaultSecretStatusForSecret ::
  "Env \<Rightarrow> Controller \<Rightarrow> AzureKeyVaultSecret \<Rightarrow> string \<Rightarrow> error option \<times> Controller" where
  "updateAzureKeyVaultSecretStatusForSecret env c akvs secretHash =
     (let secretName = determineSecretName env akvs;
          akvsCopy = akvs\<lparr>Status := (Status akvs)\<lparr>SecretName := secretName, SecretHash := secretHash,
                                    LastAzureUpdate := clock c\<rparr>\<rparr>
      in AzureKeyVaultSecrets_UpdateStatus c (Namespace akvs) akvsCopy)"

definition updateAzureKeyVaultSecretStatusForConfigMap ::
  "Env \<Rightarrow> Controller \<Rightarrow> AzureKeyVaultSecret \<Rightarrow> string \<Rightarrow> error option \<times> Controller" where
  "updateAzureKeyVaultSecretStatusForConfigMap env c akvs cmHash =
     (let cmName = determineConfigMapName env akvs;
          akvsCopy = akvs\<lparr>Status := (Status akvs)\<lparr>ConfigMapName := cmName, ConfigMapHash := cmHash,
                                    LastAzureUpdate := clock c\<rparr>\<rparr>
      in AzureKeyVaultSecrets_UpdateStatus c (Namespace akvs) akvsCopy)"

section \<open>Vault reconciler\<close>

text \<open>Lines 167 to 186 of \<open>syncAzureKeyVault\<close>: the secret has changed in the vault.\<close>

definition refreshSecret ::
  "Env \<Rightarrow> Controller \<Rightarrow> AzureKeyVaultSecret \<Rightarrow> ByteValues \<Rightarrow> error option \<times> Controller" where
  "refreshSecret env c akvs secretValue =
     (let name = OutputSecretName (OutputSecret (Output (Spec akvs))) in
      case Secrets_Get (logs (InfoSecretHasChanged (Name akvs)) c) (Namespace akvs) name of
        (Inl err, c1) \<Rightarrow> (Some (FailedToGetExistingSecret name err), c1)
      | (Inr existingSecret, c1) \<Rightarrow>
          (case updateExistingSecret env akvs secretValue existingSecret of
             Inl err \<Rightarrow> (Some (FailedToUpdateExistingSecret name err), c1)
           | Inr updatedSecret \<Rightarrow>
               (case Secrets_Update c1 (Namespace akvs) updatedSecret of
                  (Inl err, c2) \<Rightarrow> (Some (FailedToUpdateSecret err), c2)
                | (Inr secret, c2) \<Rightarrow> (None, logs (WarningSecretValueWillChange (Name secret)) c2))))"

text \<open>Lines 207 to 217: the config map is written from a new object, with no Get.\<close>

definition refreshConfigMap ::
  "Env \<Rightarrow> Controller \<Rightarrow> AzureKeyVaultSecret \<Rightarrow> StringValues \<Rightarrow> error option \<times> Controller" where
  "refreshConfigMap env c akvs cmValue =
     (case ConfigMaps_Update (logs (InfoSecretHasChanged (Name akvs)) c) (Namespace akvs)
             (createNewConfigMap env akvs cmValue) of
        (Inl err, c1) \<Rightarrow> (Some err, logs (WarningFailedToCreateSecret err) c1)
      | (Inr cm, c1) \<Rightarrow> (None, logs (WarningSecretValueWillChange (Name cm)) c1))"

text \<open>Lines 154 to 192: the block for the secret output.\<close>

definition syncSecretOutput ::
  "Env \<Rightarrow> Controller \<Rightarrow> string \<Rightarrow> AzureKeyVaultSecret \<Rightarrow> error option \<times> Controller" where
  "syncSecretOutput env c key akvs =
     (case getSecretFromKeyVault env akvs of
        Inl err \<Rightarrow>
          (let msg = FailedAzureKeyVault (Name akvs) (VaultName (Vault (Spec akvs))) in
           (Some (Errorf msg),
            recordEvent (Event (OnAzureKeyVaultSecret akvs) EventTypeWarning ErrAzureVault msg)
              (logs (ErrorFailedToGetSecretValue key (VaultName (Vault (Spec akvs)))
                       (ObjectName (Object (Vault (Spec akvs)))) err) c)))
      | Inr secretValue \<Rightarrow>
          (let akvsValuesHash = getMD5HashOfByteValues env secretValue in
           case (if SecretHash (Status akvs) \<noteq> akvsValuesHash
                 then refreshSecret env c akvs secretValue
                 else (None, c)) of
             (Some err, c1) \<Rightarrow> (Some err, c1)
           | (None, c1) \<Rightarrow> updateAzureKeyVaultSecretStatusForSecret env c1 akvs akvsValuesHash))"

text \<open>Lines 194 to 223: the block for the config map output.\<close>

definition syncConfigMapOutput ::
  "Env \<Rightarrow> Controller \<Rightarrow> string \<Rightarrow> AzureKeyVaultSecret \<Rightarrow> error option \<times> Controller" where
  "syncConfigMapOutput env c key akvs =
     (case getConfigMapFromKeyVault env akvs of
        Inl err \<Rightarrow>
          (let msg = FailedAzureKeyVault (Name akvs) (VaultName (Vault (Spec akvs))) in
           (Some (Errorf msg),
            recordEvent (Event (OnAzureKeyVaultSecret akvs) EventTypeWarning ErrAzureVault msg)
              (logs (ErrorFailedToGetSecretValue key (VaultName (Vault (Spec akvs)))
                       (ObjectName (Object (Vault (Spec akvs)))) err) c)))
      | Inr cmValue \<Rightarrow>
          (let cmHash = getMD5HashOfStringValues env cmValue in
           case (if ConfigMapHash (Status akvs) \<noteq> cmHash
                 then refreshConfigMap env c akvs cmValue
                 else (None, c)) of
             (Some err, c1) \<Rightarrow> (Some err, c1)
           | (None, c1) \<Rightarrow> updateAzureKeyVaultSecretStatusForConfigMap env c1 akvs cmHash))"

definition syncAzureKeyVault ::
  "Env \<Rightarrow> Controller \<Rightarrow> string \<Rightarrow> error option outcome \<times> Controller" where
  "syncAzureKeyVault env c key =
     (case getAzureKeyVaultSecret c key of
        Inl err \<Rightarrow>
          (case handleKeyVaultError c err key of
             (exit, c') \<Rightarrow> if exit then (Returns None, c') else (Returns (Some err), c'))
      | Inr akvs \<Rightarrow>
          (case (if akvsHasOutputSecret akvs then syncSecretOutput env c key akvs else (None, c)) of
             (Some err, c1) \<Rightarrow> (Returns (Some err), c1)
           | (None, c1) \<Rightarrow>
               (case (if akvsHasOutputConfigMap akvs then syncConfigMapOutput env c1 key akvs
                      else (None, c1)) of
                  (Some err, c2) \<Rightarrow> (Returns (Some err), c2)
                | (None, c2) \<Rightarrow>
                    (Returns None,
                     recordEvent (Event (OnAzureKeyVaultSecret akvs) EventTypeNormal SuccessSynced
                                    MessageAzureKeyVaultSecretSyncedWithAzureKeyVault) c2))))"

section \<open>Counting requests\<close>

fun isNativeWrite :: "Request \<Rightarrow> bool" where
  "isNativeWrite (SecretsUpdate _ _) = True"
| "isNativeWrite (ConfigMapsUpdate _ _) = True"
| "isNativeWrite _ = False"

fun isStatusWrite :: "Request \<Rightarrow> bool" where
  "isStatusWrite (UpdateStatus _ _) = True"
| "isStatusWrite _ = False"

fun isConfigMapsGet :: "Request \<Rightarrow> bool" where
  "isConfigMapsGet (ConfigMapsGet _ _) = True"
| "isConfigMapsGet _ = False"

definition nativeWrites :: "Controller \<Rightarrow> nat" where
  "nativeWrites c = length (filter isNativeWrite (requests c))"

definition statusWrites :: "Controller \<Rightarrow> nat" where
  "statusWrites c = length (filter isStatusWrite (requests c))"

text \<open>
  Drift of an output: the vault answered and the digest of the answer differs from the
  hash in the status; in sync: the vault answered and the digest is the stored hash.
\<close>

definition secretDrift :: "Env \<Rightarrow> AzureKeyVaultSecret \<Rightarrow> bool" where
  "secretDrift env akvs =
     (case getSecretFromKeyVault env akvs of
        Inl err \<Rightarrow> False
      | Inr secretValue \<Rightarrow> SecretHash (Status akvs) \<noteq> getMD5HashOfByteValues env secretValue)"

definition configMapDrift :: "Env \<Rightarrow> AzureKeyVaultSecret \<Rightarrow> bool" where
  "configMapDrift env akvs =
     (case getConfigMapFromKeyVault env akvs of
        Inl err \<Rightarrow> False
      | Inr cmValue \<Rightarrow> ConfigMapHash (Status akvs) \<noteq> getMD5HashOfStringValues env cmValue)"

definition secretInSync :: "Env \<Rightarrow> AzureKeyVaultSecret \<Rightarrow> bool" where
  "secretInSync env akvs =
     (case getSecretFromKeyVault env akvs of
        Inl err \<Rightarrow> False
      | Inr secretValue \<Rightarrow> SecretHash (Status akvs) = getMD5HashOfByteValues env secretValue)"

definition configMapInSync :: "Env \<Rightarrow> AzureKeyVaultSecret \<Rightarrow> bool" where
  "configMapInSync env akvs =
     (case getConfigMapFromKeyVault env akvs of
        Inl err \<Rightarrow> False
      | Inr cmValue \<Rightarrow> ConfigMapHash (Status akvs) = getMD5HashOfStringValues env cmValue)"

section \<open>The worker of the vault-drift queue\<close>

text \<open>
  Modelled from the spec: the queue's generic retry wrapper (sections 5 and 7). The
  worker takes a key off the queue and runs the reconciler; a pass that returns nil
  clears the key's retry state; a failed pass is requeued with backoff up to the retry
  ceiling and dropped beyond it.
\<close>

definition vaultDriftWorker ::
  "Env \<Rightarrow> nat \<Rightarrow> Controller \<Rightarrow> string \<Rightarrow> error option outcome \<times> Controller" where
  "vaultDriftWorker env maxRetries c key =
     (case syncAzureKeyVault env
             (c\<lparr>azureKeyVaultQueue :=
                  (azureKeyVaultQueue c)\<lparr>pending := removeAll key (pending (azureKeyVaultQueue c))\<rparr>\<rparr>) key of
        (Returns None, c') \<Rightarrow>
          (Returns None, c'\<lparr>azureKeyVaultQueue := Forget (azureKeyVaultQueue c') key\<rparr>)
      | (Returns (Some err), c') \<Rightarrow>
          (if NumRequeues (azureKeyVaultQueue c') key < maxRetries
           then (Returns (Some err), c'\<lparr>azureKeyVaultQueue := AddRateLimited (azureKeyVaultQueue c') key\<rparr>)
           else (Returns (Some err), c'\<lparr>azureKeyVaultQueue := Forget (azureKeyVaultQueue c') key\<rparr>))
      | (Panics p, c') \<Rightarrow> (Panics p, c'))"

section \<open>An environment for the examples\<close>

text \<open>
  Modelled from the spec: the ownership reference of a native object names the kind, the
  name and the UID of its declaring resource (section 3), and the ownership test compares
  the controller reference of the object with it.
\<close>

definition controllerRef :: "AzureKeyVaultSecret \<Rightarrow> OwnerReference" where
  "controllerRef akvs =
     \<lparr>Kind = ''AzureKeyVaultSecret'', OwnerName = Name akvs, OwnerUID = UID akvs, IsController = True\<rparr>"

fun GetOwnerReferences :: "OutputObject \<Rightarrow> OwnerReference list" where
  "GetOwnerReferences (SecretObject s) = OwnerReferences s"
| "GetOwnerReferences (ConfigMapObject cm) = OwnerReferences cm"

definition ownedBy :: "OutputObject \<Rightarrow> AzureKeyVaultSecret \<Rightarrow> bool" where
  "ownedBy obj akvs =
     (case find IsController (GetOwnerReferences obj) of
        None \<Rightarrow> False
      | Some ref \<Rightarrow> ref = controllerRef akvs)"

text \<open>
  Modelled from the spec: the vault service answers a fetch of an object of a vault with
  its content or with an error (section 6); the handlers of the examples hand the content
  on as it is.
\<close>

definition vaultContent ::
  "(string \<times> string \<rightharpoonup> (string \<times> string) list) \<Rightarrow> AzureKeyVaultSecret \<Rightarrow> error + (string \<times> string) list" where
  "vaultContent vault akvs =
     (case vault (VaultName (Vault (Spec akvs)), ObjectName (Object (Vault (Spec akvs)))) of
        None \<Rightarrow> Inl (OtherError ''vault object not found'')
      | Some v \<Rightarrow> Inr v)"

fun handlerResource :: "KubernetesHandler \<Rightarrow> AzureKeyVaultSecret" where
  "handlerResource (AzureSecretHandler akvs t) = akvs"
| "handlerResource (AzureCertificateHandler akvs) = akvs"
| "handlerResource (AzureKeyHandler akvs) = akvs"
| "handlerResource (AzureMultiKeySecretHandler akvs) = akvs"

text \<open>
  Modelled from the spec: get-or-create of a native object (section 4.2): the object of
  the output's name if there is one, else a new one that carries the ownership reference
  and the vault's content.
\<close>

definition newSecret :: "AzureKeyVaultSecret \<Rightarrow> ByteValues \<Rightarrow> Secret" where
  "newSecret akvs values =
     \<lparr>Namespace = Namespace akvs, Name = OutputSecretName (OutputSecret (Output (Spec akvs))),
      UID = [], ResourceVersion = [], OwnerReferences = [controllerRef akvs],
      SecretType = ''Opaque'', Data = values\<rparr>"

definition newConfigMap :: "AzureKeyVaultSecret \<Rightarrow> StringValues \<Rightarrow> ConfigMap" where
  "newConfigMap akvs values =
     \<lparr>Namespace = Namespace akvs, Name = OutputConfigMapName (OutputConfigMap (Output (Spec akvs))),
      UID = [], ResourceVersion = [], OwnerReferences = [controllerRef akvs],
      ConfigMapData = values\<rparr>"

definition getOrCreateSecret ::
  "(AzureKeyVaultSecret \<Rightarrow> error + ByteValues) \<Rightarrow> Controller \<Rightarrow> AzureKeyVaultSecret \<Rightarrow>
   (error + Secret) \<times> Controller" where
  "getOrCreateSecret fetch c akvs =
     (case kubeSecrets c (Namespace akvs, OutputSecretName (OutputSecret (Output (Spec akvs)))) of
        Some s \<Rightarrow> (Inr s, c)
      | None \<Rightarrow>
          (case fetch akvs of
             Inl err \<Rightarrow> (Inl err, c)
           | Inr values \<Rightarrow>
               (Inr (newSecret akvs values),
                c\<lparr>kubeSecrets := (kubeSecrets c)
                     ((Namespace akvs, OutputSecretName (OutputSecret (Output (Spec akvs)))) \<mapsto>
                        newSecret akvs values)\<rparr>)))"

definition getOrCreateConfigMap ::
  "(AzureKeyVaultSecret \<Rightarrow> error + StringValues) \<Rightarrow> Controller \<Rightarrow> AzureKeyVaultSecret \<Rightarrow>
   (error + ConfigMap) \<times> Controller" where
  "getOrCreateConfigMap fetch c akvs =
     (case kubeConfigMaps c (Namespace akvs, OutputConfigMapName (OutputConfigMap (Output (Spec akvs)))) of
        Some cm \<Rightarrow> (Inr cm, c)
      | None \<Rightarrow>
          (case fetch akvs of
             Inl err \<Rightarrow> (Inl err, c)
           | Inr values \<Rightarrow>
               (Inr (newConfigMap akvs values),
                c\<lparr>kubeConfigMaps := (kubeConfigMaps c)
                     ((Namespace akvs, OutputConfigMapName (OutputConfigMap (Output (Spec akvs)))) \<mapsto>
                        newConfigMap akvs values)\<rparr>)))"

text \<open>
  Modelled from the spec: a stand-in for the content digest (section 3): the payload
  written out, so that equal payloads have equal digests.
\<close>

definition writtenOut :: "(string \<times> string) list \<Rightarrow> string" where
  "writtenOut values = concat (map (\<lambda>(k, v). k @ ''='' @ v @ '';'') values)"

definition exampleEnv :: "(string \<times> string \<rightharpoonup> (string \<times> string) list) \<Rightarrow> Env" where
  "exampleEnv vault =
     \<lparr>getOrCreateKubernetesSecret = getOrCreateSecret (vaultContent vault),
      getOrCreateKubernetesConfigMap = getOrCreateConfigMap (vaultContent vault),
      isOwnedBy = ownedBy,
      CreateTransformator = (\<lambda>out. Inr (Transform out)),
      HandleSecret = (\<lambda>h. vaultContent vault (handlerResource h)),
      HandleConfigMap = (\<lambda>h. vaultContent vault (handlerResource h)),
      getMD5HashOfByteValues = writtenOut,
      getMD5HashOfStringValues = writtenOut,
      updateExistingSecret = (\<lambda>akvs values existing. Inr (existing\<lparr>Data := values\<rparr>)),
      createNewConfigMap = newConfigMap,
      determineSecretName = (\<lambda>akvs. OutputSecretName (OutputSecret (Output (Spec akvs)))),
      determineConfigMapName = (\<lambda>akvs. OutputConfigMapName (OutputConfigMap (Output (Spec akvs))))\<rparr>"

text \<open>
  The resource \<open>ns/foo\<close> of the spec's scenarios, with the outputs, the vault object type,
  the resource version and the stored hashes as arguments; the vault \<open>kv\<close> holds
  \<open>password\<close>.
\<close>

definition exampleVault :: "string \<times> string \<rightharpoonup> (string \<times> string) list" where
  "exampleVault = [(''kv'', ''password'') \<mapsto> [(''password'', ''p@ss'')]]"

definition exampleResource ::
  "string \<Rightarrow> string \<Rightarrow> string \<Rightarrow> AzureKeyVaultObjectType \<Rightarrow> string \<Rightarrow> string \<Rightarrow> AzureKeyVaultSecret" where
  "exampleResource version secretOutput cmOutput type secretHash cmHash =
     \<lparr>Namespace = ''ns'', Name = ''foo'', UID = ''uid-foo'', ResourceVersion = version,
      OwnerReferences = [],
      Spec = \<lparr>Vault = \<lparr>VaultName = ''kv'', Object = \<lparr>ObjectName = ''password'', ObjectType = type\<rparr>\<rparr>,
              Output = \<lparr>OutputSecret = \<lparr>OutputSecretName = secretOutput, OutputSecretDataKey = []\<rparr>,
                        OutputConfigMap = \<lparr>OutputConfigMapName = cmOutput, OutputConfigMapDataKey = []\<rparr>,
                        Transform = []\<rparr>\<rparr>,
      Status = \<lparr>SecretName = [], SecretHash = secretHash, ConfigMapName = [], ConfigMapHash = cmHash,
                LastAzureUpdate = 0\<rparr>\<rparr>"

definition emptyQueue :: workqueue where
  "emptyQueue = \<lparr>pending = [], backoff = Map.empty\<rparr>"

definition exampleController ::
  "AzureKeyVaultSecret \<Rightarrow> Secret list \<Rightarrow> ConfigMap list \<Rightarrow> Controller" where
  "exampleController akvs secrets cms =
     \<lparr>akvsCrdQueue = emptyQueue, azureKeyVaultQueue = emptyQueue,
      azureKeyVaultSecretLister = [(Namespace akvs, Name akvs) \<mapsto> akvs],
      akvsClient = [(Namespace akvs, Name akvs) \<mapsto> akvs],
      kubeSecrets = map_of (map (\<lambda>s. ((Namespace s, Name s), s)) secrets),
      kubeConfigMaps = map_of (map (\<lambda>cm. ((Namespace cm, Name cm), cm)) cms),
      recorder = [], clock = 7, logged = [], requests = []\<rparr>"

text \<open>A secret and a config map that somebody else made: no ownership reference.\<close>

definition foreignSecret :: Secret where
  "foreignSecret =
     \<lparr>Namespace = ''ns'', Name = ''foo-secret'', UID = ''uid-1'', ResourceVersion = ''1'',
      OwnerReferences = [], SecretType = ''Opaque'', Data = [(''token'', ''t'')]\<rparr>"

definition foreignConfigMap :: ConfigMap where
  "foreignConfigMap =
     \<lparr>Namespace = ''ns'', Name = ''foo-cm'', UID = ''uid-2'', ResourceVersion = ''1'',
      OwnerReferences = [], ConfigMapData = [(''motd'', ''hello'')]\<rparr>"

text \<open>The resource \<open>ns/foo\<close> in the shapes the examples use.\<close>

definition secretOnly :: AzureKeyVaultSecret where
  "secretOnly = exampleResource ''1'' ''foo-secret'' [] AzureKeyVaultObjectTypeSecret [] []"

definition secretOnlyInSync :: AzureKeyVaultSecret where
  "secretOnlyInSync =
     exampleResource ''1'' ''foo-secret'' [] AzureKeyVaultObjectTypeSecret ''password=p@ss;'' []"

definition configMapOnly :: AzureKeyVaultSecret where
  "configMapOnly = exampleResource ''1'' [] ''foo-cm'' AzureKeyVaultObjectTypeSecret [] []"

definition bothOutputs :: AzureKeyVaultSecret where
  "bothOutputs = exampleResource ''1'' ''foo-secret'' ''foo-cm'' AzureKeyVaultObjectTypeSecret [] []"

definition noOutput :: AzureKeyVaultSecret where
  "noOutput = exampleResource ''2'' [] [] AzureKeyVaultObjectTypeSecret [] []"

definition unsupportedType :: AzureKeyVaultSecret where
  "unsupportedType = exampleResource ''1'' ''foo-secret'' [] (OtherObjectType ''blob'') [] []"

text \<open>A controller whose vault-drift queue has a retry scheduled for \<open>ns/foo\<close>.\<close>

definition controllerWithRetry :: Controller where
  "controllerWithRetry =
     (exampleController secretOnly [] [])
       \<lparr>azureKeyVaultQueue := \<lparr>pending = [], backoff = [''ns/foo'' \<mapsto> 2]\<rparr>\<rparr>"


text \<open>The native objects of \<open>ns/foo\<close> as the controller makes them, with old content.\<close>

definition ownedSecret :: Secret where
  "ownedSecret = newSecret bothOutputs [(''password'', ''old'')]"

definition ownedConfigMap :: ConfigMap where
  "ownedConfigMap = newConfigMap bothOutputs [(''password'', ''old'')]"

section \<open>Event dispatcher: properties\<close>

lemma Enqueue_key: "MetaNamespaceKeyFunc obj = Inr key \<Longrightarrow> key \<in> set (pending (Enqueue q obj))"
  by (simp add: Enqueue_def Add_def)

lemma converted_ok:
  "convertToAzureKeyVaultSecret obj = Inr secret \<Longrightarrow> converted c obj = (Some secret, c)"
  by (simp add: converted_def)


text \<open>
  C6. The claim: an event whose payload fails the conversion is logged and dropped, with
  no further processing and no use of the failed result. The callbacks log the failure and
  then go on with the nil pointer the conversion returned: the next read through it
  panics, for Add, Delete and Update (either payload) alike.
\<close>

theorem C6_conversion_failure_panics:
  "AddFunc c (Plain NotAzureKeyVaultSecret) =
     (Panics NilPointerDereference, logs (ErrorFailedToConvert CouldntGetObjectFromTombstone) c)
   \<and> DeleteFunc c (DeletedFinalStateUnknown key NotAzureKeyVaultSecret) =
     (Panics NilPointerDereference,
      logs (ErrorFailedToConvert TombstoneContainedObjectThatIsNotAAzureKeyVaultSecret) c)
   \<and> fst (UpdateFunc c old (Plain NotAzureKeyVaultSecret)) = Panics NilPointerDereference
   \<and> fst (UpdateFunc c (Plain NotAzureKeyVaultSecret) new) = Panics NilPointerDereference"
  by (simp add: AddFunc_def DeleteFunc_def UpdateFunc_def converted_def
           split: prod.splits option.splits sum.splits)



text \<open>
  C5 as claimed fails: an Update that removes the last output of \<open>ns/foo\<close> (the old
  object has a secret output, the new one has none, the resource version changed) puts the
  key on the structural queue.
\<close>

theorem C5_counterexample:
  "\<not> akvsHasOutputDefined noOutput
   \<and> pending (akvsCrdQueue (exampleController secretOnly [] [])) = []
   \<and> UpdateFunc (exampleController secretOnly [] [])
        (Plain (IsAzureKeyVaultSecret secretOnly)) (Plain (IsAzureKeyVaultSecret noOutput))
      = (Returns (),
         (exampleController secretOnly [] [])\<lparr>akvsCrdQueue := \<lparr>pending = [''ns/foo''], backoff = Map.empty\<rparr>\<rparr>)"
  by (simp add: UpdateFunc_def converted_def akvsHasOutputDefined_def akvsHasOutputSecret_def
        akvsHasOutputConfigMap_def noOutput_def secretOnly_def exampleResource_def
        exampleController_def Enqueue_def Add_def emptyQueue_def)

text \<open>
  C5, amended. A resource with no output defined is never put on the vault-drift queue;
  an Add or a Delete event for it changes nothing; an Update event for it changes nothing
  when the old object has no output either.
\<close>

theorem C5_inert_resources:
  "(convertToAzureKeyVaultSecret obj = Inr secret \<and> \<not> akvsHasOutputDefined secret
      \<longrightarrow> AddFunc c obj = (Returns (), c) \<and> DeleteFunc c obj = (Returns (), c))
   \<and> (convertToAzureKeyVaultSecret new = Inr newAkvs \<and> convertToAzureKeyVaultSecret old = Inr oldAkvs
        \<and> \<not> akvsHasOutputDefined newAkvs
      \<longrightarrow> fst (UpdateFunc c old new) = Returns ()
          \<and> azureKeyVaultQueue (snd (UpdateFunc c old new)) = azureKeyVaultQueue c
          \<and> (\<not> akvsHasOutputDefined oldAkvs \<longrightarrow> UpdateFunc c old new = (Returns (), c)))"
  by (auto simp add: AddFunc_def DeleteFunc_def UpdateFunc_def converted_ok)

theorem C5_inert_resources_witness:
  "convertToAzureKeyVaultSecret (Plain (IsAzureKeyVaultSecret noOutput)) = Inr noOutput
   \<and> \<not> akvsHasOutputDefined noOutput
   \<and> AddFunc controllerWithRetry (Plain (IsAzureKeyVaultSecret noOutput)) = (Returns (), controllerWithRetry)
   \<and> DeleteFunc controllerWithRetry (Plain (IsAzureKeyVaultSecret noOutput)) = (Returns (), controllerWithRetry)
   \<and> UpdateFunc controllerWithRetry (Plain (IsAzureKeyVaultSecret noOutput)) (Plain (IsAzureKeyVaultSecret noOutput))
       = (Returns (), controllerWithRetry)"
proof -
  have h1: "convertToAzureKeyVaultSecret (Plain (IsAzureKeyVaultSecret noOutput)) = Inr noOutput"
    by simp
  have h2: "\<not> akvsHasOutputDefined noOutput"
    by (simp add: akvsHasOutputDefined_def akvsHasOutputSecret_def akvsHasOutputConfigMap_def
          noOutput_def exampleResource_def)
  show ?thesis
    using h1 h2
      C5_inert_resources [of "Plain (IsAzureKeyVaultSecret noOutput)" noOutput controllerWithRetry
         "Plain (IsAzureKeyVaultSecret noOutput)" noOutput "Plain (IsAzureKeyVaultSecret noOutput)" noOutput]
    by simp
qed

section \<open>Output reconciler: properties\<close>

lemma sync_secret_no_panic:
  assumes "getAzureKeyVaultSecret c key = Inr akvs"
  shows "(fst (syncAzureKeyVaultSecret env c key) = Panics NilPointerDereference) = (\<not> akvsHasOutputDefined akvs)"
  using assms
  by (auto simp add: syncAzureKeyVaultSecret_def akvsHasOutputDefined_def Let_def
        split: prod.splits sum.splits option.splits if_splits)

lemma get_example:
  "Namespace akvs = ''ns'' \<Longrightarrow> Name akvs = ''foo'' \<Longrightarrow>
   getAzureKeyVaultSecret (exampleController akvs ss cms) ''ns/foo'' = Inr akvs"
  by (simp add: getAzureKeyVaultSecret_def SplitMetaNamespaceKey_def exampleController_def)

text \<open>
  C10. For a resolved resource, \<open>syncAzureKeyVaultSecret\<close> panics on the nil
  \<open>outputObject\<close> exactly when the resource defines no output; and that is reachable:
  an Update from an object with an output to one with none puts the key on the structural
  queue.
\<close>

theorem C10_nil_output_object:
  "(getAzureKeyVaultSecret c key = Inr akvs \<longrightarrow>
      (fst (syncAzureKeyVaultSecret env c key) = Panics NilPointerDereference) = (\<not> akvsHasOutputDefined akvs))
   \<and> (convertToAzureKeyVaultSecret new = Inr newAkvs \<and> convertToAzureKeyVaultSecret old = Inr oldAkvs
        \<and> \<not> akvsHasOutputDefined newAkvs \<and> akvsHasOutputDefined oldAkvs
        \<and> MetaNamespaceKeyFunc new = Inr k
      \<longrightarrow> fst (UpdateFunc c' old new) = Returns ()
          \<and> k \<in> set (pending (akvsCrdQueue (snd (UpdateFunc c' old new)))))"
  by (auto simp add: sync_secret_no_panic UpdateFunc_def converted_ok Enqueue_key)

theorem C10_nil_output_object_witness:
  "getAzureKeyVaultSecret (exampleController noOutput [] []) ''ns/foo'' = Inr noOutput
   \<and> \<not> akvsHasOutputDefined noOutput
   \<and> akvsHasOutputDefined secretOnly
   \<and> MetaNamespaceKeyFunc (Plain (IsAzureKeyVaultSecret noOutput)) = Inr ''ns/foo''
   \<and> ''ns/foo'' \<in> set (pending (akvsCrdQueue (snd (UpdateFunc (exampleController secretOnly [] [])
          (Plain (IsAzureKeyVaultSecret secretOnly)) (Plain (IsAzureKeyVaultSecret noOutput))))))
   \<and> fst (syncAzureKeyVaultSecret (exampleEnv exampleVault) (exampleController noOutput [] []) ''ns/foo'')
       = Panics NilPointerDereference"
proof -
  have h1: "getAzureKeyVaultSecret (exampleController noOutput [] []) ''ns/foo'' = Inr noOutput"
    by (simp add: get_example noOutput_def exampleResource_def)
  have h2: "\<not> akvsHasOutputDefined noOutput"
    by (simp add: akvsHasOutputDefined_def akvsHasOutputSecret_def akvsHasOutputConfigMap_def
          noOutput_def exampleResource_def)
  have h3: "akvsHasOutputDefined secretOnly"
    by (simp add: akvsHasOutputDefined_def akvsHasOutputSecret_def secretOnly_def exampleResource_def)
  have h4: "MetaNamespaceKeyFunc (Plain (IsAzureKeyVaultSecret noOutput)) = Inr ''ns/foo''"
    by (simp add: noOutput_def exampleResource_def)
  show ?thesis
    using h1 h2 h3 h4
      C10_nil_output_object [of "exampleController noOutput [] []" "''ns/foo''" noOutput
        "exampleEnv exampleVault" "Plain (IsAzureKeyVaultSecret noOutput)" noOutput
        "Plain (IsAzureKeyVaultSecret secretOnly)" secretOnly "''ns/foo''"
        "exampleController secretOnly [] []"]
    by simp
qed

section \<open>Handler selection: properties\<close>

lemma unsupported_secret:
  "ObjectType (Object (Vault (Spec a))) = OtherObjectType t \<Longrightarrow>
   getSecretFromKeyVault env a = Inl (ObjectTypeNotSupported (OtherObjectType t))"
  by (simp add: getSecretFromKeyVault_def)

lemma unsupported_configMap:
  "ObjectType (Object (Vault (Spec a))) = OtherObjectType t \<Longrightarrow>
   getConfigMapFromKeyVault env a = Inl (ObjectTypeNotSupported (OtherObjectType t))"
  by (simp add: getConfigMapFromKeyVault_def)

lemma unsupported_sync:
  assumes "getAzureKeyVaultSecret c key = Inr a"
    and "ObjectType (Object (Vault (Spec a))) = OtherObjectType t"
    and "akvsHasOutputDefined a"
  shows "fst (syncAzureKeyVault env c key) =
           Returns (Some (Errorf (FailedAzureKeyVault (Name a) (VaultName (Vault (Spec a))))))"
  using assms
  by (auto simp add: syncAzureKeyVault_def syncSecretOutput_def syncConfigMapOutput_def
        unsupported_secret unsupported_configMap akvsHasOutputDefined_def Let_def)


lemma unsupported_sync_full:
  assumes "getAzureKeyVaultSecret c key = Inr a"
    and "ObjectType (Object (Vault (Spec a))) = OtherObjectType t"
    and "akvsHasOutputDefined a"
  shows "syncAzureKeyVault env c key =
           (Returns (Some (Errorf (FailedAzureKeyVault (Name a) (VaultName (Vault (Spec a)))))),
            recordEvent (Event (OnAzureKeyVaultSecret a) EventTypeWarning ErrAzureVault
                           (FailedAzureKeyVault (Name a) (VaultName (Vault (Spec a)))))
              (logs (ErrorFailedToGetSecretValue key (VaultName (Vault (Spec a)))
                       (ObjectName (Object (Vault (Spec a))))
                       (ObjectTypeNotSupported (OtherObjectType t))) c))"
  using assms
  by (auto simp add: syncAzureKeyVault_def syncSecretOutput_def syncConfigMapOutput_def
        unsupported_secret unsupported_configMap akvsHasOutputDefined_def Let_def)

lemma get_lister:
  "azureKeyVaultSecretLister c' = azureKeyVaultSecretLister c \<Longrightarrow>
   getAzureKeyVaultSecret c' key = getAzureKeyVaultSecret c key"
  by (simp add: getAzureKeyVaultSecret_def split: sum.splits prod.splits)

lemma get_ignores_queue:
  "getAzureKeyVaultSecret (c\<lparr>azureKeyVaultQueue := q\<rparr>) key = getAzureKeyVaultSecret c key"
  by (rule get_lister) simp

lemma unsupported_worker:
  assumes "getAzureKeyVaultSecret c key = Inr a"
    and "ObjectType (Object (Vault (Spec a))) = OtherObjectType t"
    and "akvsHasOutputDefined a"
    and "NumRequeues (azureKeyVaultQueue c) key < maxRetries"
  shows "backoff (azureKeyVaultQueue (snd (vaultDriftWorker env maxRetries c key))) key
           = Some (Suc (NumRequeues (azureKeyVaultQueue c) key))"
proof -
  let ?c = "c\<lparr>azureKeyVaultQueue :=
                  (azureKeyVaultQueue c)\<lparr>pending := removeAll key (pending (azureKeyVaultQueue c))\<rparr>\<rparr>"
  have g: "getAzureKeyVaultSecret ?c key = Inr a"
    using assms(1) by (simp add: get_ignores_queue)
  show ?thesis
    using assms(4)
    by (simp add: vaultDriftWorker_def unsupported_sync_full [OF g assms(2) assms(3)]
          recordEvent_def logs_def NumRequeues_def AddRateLimited_def split: option.splits)
qed

text \<open>
  C8 as claimed fails in its last words: the error for an unsupported type is not exempt
  from retry. The vault reconciler returns it as it returns any failed fetch, and the
  worker schedules a retry for the key.
\<close>

theorem C8_counterexample:
  "ObjectType (Object (Vault (Spec unsupportedType))) = OtherObjectType ''blob''
   \<and> getSecretFromKeyVault (exampleEnv exampleVault) unsupportedType
       = Inl (ObjectTypeNotSupported (OtherObjectType ''blob''))
   \<and> backoff (azureKeyVaultQueue (exampleController unsupportedType [] [])) ''ns/foo'' = None
   \<and> fst (vaultDriftWorker (exampleEnv exampleVault) 5 (exampleController unsupportedType [] []) ''ns/foo'')
       = Returns (Some (Errorf (FailedAzureKeyVault ''foo'' ''kv'')))
   \<and> backoff (azureKeyVaultQueue (snd (vaultDriftWorker (exampleEnv exampleVault) 5
        (exampleController unsupportedType [] []) ''ns/foo''))) ''ns/foo'' = Some 1"
proof -
  have g: "getAzureKeyVaultSecret (exampleController unsupportedType [] []) ''ns/foo'' = Inr unsupportedType"
    by (simp add: get_example unsupportedType_def exampleResource_def)
  have g': "getAzureKeyVaultSecret
       ((exampleController unsupportedType [] [])\<lparr>azureKeyVaultQueue :=
           (azureKeyVaultQueue (exampleController unsupportedType [] []))\<lparr>pending :=
              removeAll ''ns/foo'' (pending (azureKeyVaultQueue (exampleController unsupportedType [] [])))\<rparr>\<rparr>)
       ''ns/foo'' = Inr unsupportedType"
    using g by (simp add: get_ignores_queue)
  have t: "ObjectType (Object (Vault (Spec unsupportedType))) = OtherObjectType ''blob''"
    by (simp add: unsupportedType_def exampleResource_def)
  have d: "akvsHasOutputDefined unsupportedType"
    by (simp add: akvsHasOutputDefined_def akvsHasOutputSecret_def unsupportedType_def exampleResource_def)
  have n: "Name unsupportedType = ''foo''" "VaultName (Vault (Spec unsupportedType)) = ''kv''"
    by (simp_all add: unsupportedType_def exampleResource_def)
  have b: "backoff (azureKeyVaultQueue (exampleController unsupportedType [] [])) ''ns/foo'' = None"
    by (simp add: exampleController_def emptyQueue_def)
  show ?thesis
    using t b n
    by (simp add: unsupported_secret vaultDriftWorker_def unsupported_sync_full [OF g' t d]
          NumRequeues_def AddRateLimited_def recordEvent_def logs_def)
qed

text \<open>
  C8, amended. Each of the four types selects its handler (the Secret type after the
  transformation factory has answered); every other type fails on both paths; the vault
  reconciler returns that failure as the error of a failed vault fetch, and the worker
  schedules a retry while the retry ceiling is not reached.
\<close>

theorem C8_handler_dispatch:
  "(ObjectType (Object (Vault (Spec a))) = AzureKeyVaultObjectTypeSecret \<longrightarrow>
      getSecretFromKeyVault env a =
        (case CreateTransformator env (Output (Spec a)) of
           Inl err \<Rightarrow> Inl err | Inr t \<Rightarrow> HandleSecret env (AzureSecretHandler a t))
      \<and> getConfigMapFromKeyVault env a =
        (case CreateTransformator env (Output (Spec a)) of
           Inl err \<Rightarrow> Inl err | Inr t \<Rightarrow> HandleConfigMap env (AzureSecretHandler a t)))
   \<and> (ObjectType (Object (Vault (Spec a))) = AzureKeyVaultObjectTypeCertificate \<longrightarrow>
      getSecretFromKeyVault env a = HandleSecret env (AzureCertificateHandler a)
      \<and> getConfigMapFromKeyVault env a = HandleConfigMap env (AzureCertificateHandler a))
   \<and> (ObjectType (Object (Vault (Spec a))) = AzureKeyVaultObjectTypeKey \<longrightarrow>
      getSecretFromKeyVault env a = HandleSecret env (AzureKeyHandler a)
      \<and> getConfigMapFromKeyVault env a = HandleConfigMap env (AzureKeyHandler a))
   \<and> (ObjectType (Object (Vault (Spec a))) = AzureKeyVaultObjectTypeMultiKeyValueSecret \<longrightarrow>
      getSecretFromKeyVault env a = HandleSecret env (AzureMultiKeySecretHandler a)
      \<and> getConfigMapFromKeyVault env a = HandleConfigMap env (AzureMultiKeySecretHandler a))
   \<and> (ObjectType (Object (Vault (Spec a))) = OtherObjectType t \<longrightarrow>
      getSecretFromKeyVault env a = Inl (ObjectTypeNotSupported (OtherObjectType t))
      \<and> getConfigMapFromKeyVault env a = Inl (ObjectTypeNotSupported (OtherObjectType t))
      \<and> (getAzureKeyVaultSecret c key = Inr a \<and> akvsHasOutputDefined a \<longrightarrow>
           fst (syncAzureKeyVault env c key) =
             Returns (Some (Errorf (FailedAzureKeyVault (Name a) (VaultName (Vault (Spec a))))))
           \<and> (NumRequeues (azureKeyVaultQueue c) key < maxRetries \<longrightarrow>
                backoff (azureKeyVaultQueue (snd (vaultDriftWorker env maxRetries c key))) key
                  = Some (Suc (NumRequeues (azureKeyVaultQueue c) key)))))"
  by (simp add: unsupported_secret unsupported_configMap unsupported_sync unsupported_worker
        getSecretFromKeyVault_def getConfigMapFromKeyVault_def)

theorem C8_handler_dispatch_witness:
  "ObjectType (Object (Vault (Spec secretOnly))) = AzureKeyVaultObjectTypeSecret
   \<and> getSecretFromKeyVault (exampleEnv exampleVault) secretOnly = Inr [(''password'', ''p@ss'')]
   \<and> ObjectType (Object (Vault (Spec unsupportedType))) = OtherObjectType ''blob''
   \<and> getAzureKeyVaultSecret (exampleController unsupportedType [] []) ''ns/foo'' = Inr unsupportedType
   \<and> akvsHasOutputDefined unsupportedType
   \<and> NumRequeues (azureKeyVaultQueue (exampleController unsupportedType [] [])) ''ns/foo'' < 5
   \<and> getConfigMapFromKeyVault (exampleEnv exampleVault) unsupportedType
       = Inl (ObjectTypeNotSupported (OtherObjectType ''blob''))
   \<and> fst (syncAzureKeyVault (exampleEnv exampleVault) (exampleController unsupportedType [] []) ''ns/foo'')
       = Returns (Some (Errorf (FailedAzureKeyVault ''foo'' ''kv'')))"
proof -
  have g: "getAzureKeyVaultSecret (exampleController unsupportedType [] []) ''ns/foo'' = Inr unsupportedType"
    by (simp add: get_example unsupportedType_def exampleResource_def)
  have t: "ObjectType (Object (Vault (Spec unsupportedType))) = OtherObjectType ''blob''"
    by (simp add: unsupportedType_def exampleResource_def)
  have d: "akvsHasOutputDefined unsupportedType"
    by (simp add: akvsHasOutputDefined_def akvsHasOutputSecret_def unsupportedType_def exampleResource_def)
  have n: "Name unsupportedType = ''foo''" "VaultName (Vault (Spec unsupportedType)) = ''kv''"
    by (simp_all add: unsupportedType_def exampleResource_def)
  have b: "NumRequeues (azureKeyVaultQueue (exampleController unsupportedType [] [])) ''ns/foo'' < 5"
    by (simp add: exampleController_def emptyQueue_def NumRequeues_def)
  have s: "ObjectType (Object (Vault (Spec secretOnly))) = AzureKeyVaultObjectTypeSecret"
    by (simp add: secretOnly_def exampleResource_def)
  have v: "CreateTransformator (exampleEnv exampleVault) (Output (Spec secretOnly)) = Inr []"
    "HandleSecret (exampleEnv exampleVault) (AzureSecretHandler secretOnly []) = Inr [(''password'', ''p@ss'')]"
    by (simp_all add: exampleEnv_def secretOnly_def exampleResource_def vaultContent_def exampleVault_def)
  show ?thesis
    using g t d n b s v
      C8_handler_dispatch [of secretOnly "exampleEnv exampleVault"]
      C8_handler_dispatch [of unsupportedType "exampleEnv exampleVault" "''blob''"
         "exampleController unsupportedType [] []" "''ns/foo''" 5]
    by simp
qed

lemmas example_defs =
  exampleEnv_def exampleController_def exampleResource_def exampleVault_def vaultContent_def
  bothOutputs_def secretOnly_def configMapOnly_def secretOnlyInSync_def
  foreignSecret_def foreignConfigMap_def ownedSecret_def ownedConfigMap_def
  newSecret_def newConfigMap_def controllerRef_def ownedBy_def emptyQueue_def writtenOut_def
  getOrCreateSecret_def getOrCreateConfigMap_def

lemmas vault_reconciler_defs =
  syncAzureKeyVault_def getAzureKeyVaultSecret_def SplitMetaNamespaceKey_def
  akvsHasOutputSecret_def akvsHasOutputConfigMap_def
  syncSecretOutput_def syncConfigMapOutput_def refreshSecret_def refreshConfigMap_def
  getSecretFromKeyVault_def getConfigMapFromKeyVault_def
  updateAzureKeyVaultSecretStatusForSecret_def updateAzureKeyVaultSecretStatusForConfigMap_def
  Secrets_Get_def Secrets_Update_def ConfigMaps_Update_def AzureKeyVaultSecrets_UpdateStatus_def
  request_def recordEvent_def logs_def Let_def

text \<open>
  C1. The claim: with both outputs defined, the ownership of each resulting object is
  verified. The test is made once, on the object assigned last: for \<open>ns/foo\<close> with
  both outputs, a secret \<open>foo-secret\<close> that somebody else made and a config map of its
  own, the pass records two success events and returns nil. With the secret output alone
  the same secret is reported as a conflict.
\<close>

theorem C1_secret_not_verified:
  "\<not> isOwnedBy (exampleEnv exampleVault) (SecretObject foreignSecret) bothOutputs
   \<and> kubeSecrets (exampleController bothOutputs [foreignSecret] [ownedConfigMap]) (''ns'', ''foo-secret'')
       = Some foreignSecret
   \<and> syncAzureKeyVaultSecret (exampleEnv exampleVault)
        (exampleController bothOutputs [foreignSecret] [ownedConfigMap]) ''ns/foo''
      = (Returns None,
         (exampleController bothOutputs [foreignSecret] [ownedConfigMap])
           \<lparr>recorder := [Event (OnSecret foreignSecret) EventTypeNormal SuccessSynced MessageAzureKeyVaultSecretSynced,
                         Event (OnConfigMap ownedConfigMap) EventTypeNormal SuccessSynced MessageAzureKeyVaultSecretSynced]\<rparr>)
   \<and> fst (syncAzureKeyVaultSecret (exampleEnv exampleVault)
        (exampleController secretOnly [foreignSecret] []) ''ns/foo'')
      = Returns (Some (Errorf (MessageResourceExists ''foo-secret'')))"
  by (simp add: syncAzureKeyVaultSecret_def getAzureKeyVaultSecret_def SplitMetaNamespaceKey_def akvsHasOutputSecret_def akvsHasOutputConfigMap_def
          recordEvent_def logs_def Let_def example_defs)

section \<open>Status persister: properties\<close>

lemma UpdateStatus_effect:
  "requests (snd (AzureKeyVaultSecrets_UpdateStatus c ns akvsCopy)) = requests c @ [UpdateStatus ns akvsCopy]
   \<and> azureKeyVaultSecretLister (snd (AzureKeyVaultSecrets_UpdateStatus c ns akvsCopy)) = azureKeyVaultSecretLister c
   \<and> akvsClient (snd (AzureKeyVaultSecrets_UpdateStatus c ns akvsCopy)) (ns, Name akvsCopy)
        = map_option (\<lambda>stored. stored\<lparr>Status := Status akvsCopy\<rparr>) (akvsClient c (ns, Name akvsCopy))"
  by (simp add: AzureKeyVaultSecrets_UpdateStatus_def request_def split: option.splits)

text \<open>
  C9. Each updater sends one copy of the resource it was given: the object metadata and
  the spec are those of the resource, the status differs in the updater's own fields
  only (the secret updater keeps the config map fields, the config map updater keeps the
  secret fields, the general updater sets all five), the stored resource takes the status
  of the copy, and what the lister holds is unchanged.
\<close>

theorem C9_status_writes:
  "(\<exists>akvsCopy.
      requests (snd (updateAzureKeyVaultSecretStatusForSecret env c akvs secretHash))
        = requests c @ [UpdateStatus (Namespace akvs) akvsCopy]
      \<and> akvsClient (snd (updateAzureKeyVaultSecretStatusForSecret env c akvs secretHash)) (Namespace akvs, Name akvs)
          = map_option (\<lambda>stored. stored\<lparr>Status := Status akvsCopy\<rparr>) (akvsClient c (Namespace akvs, Name akvs))
      \<and> ObjectMeta.truncate akvsCopy = ObjectMeta.truncate akvs \<and> Spec akvsCopy = Spec akvs
      \<and> SecretName (Status akvsCopy) = determineSecretName env akvs
      \<and> SecretHash (Status akvsCopy) = secretHash
      \<and> LastAzureUpdate (Status akvsCopy) = clock c
      \<and> ConfigMapName (Status akvsCopy) = ConfigMapName (Status akvs)
      \<and> ConfigMapHash (Status akvsCopy) = ConfigMapHash (Status akvs))
   \<and> azureKeyVaultSecretLister (snd (updateAzureKeyVaultSecretStatusForSecret env c akvs secretHash))
        = azureKeyVaultSecretLister c
   \<and> (\<exists>akvsCopy.
      requests (snd (updateAzureKeyVaultSecretStatusForConfigMap env c akvs cmHash))
        = requests c @ [UpdateStatus (Namespace akvs) akvsCopy]
      \<and> akvsClient (snd (updateAzureKeyVaultSecretStatusForConfigMap env c akvs cmHash)) (Namespace akvs, Name akvs)
          = map_option (\<lambda>stored. stored\<lparr>Status := Status akvsCopy\<rparr>) (akvsClient c (Namespace akvs, Name akvs))
      \<and> ObjectMeta.truncate akvsCopy = ObjectMeta.truncate akvs \<and> Spec akvsCopy = Spec akvs
      \<and> ConfigMapName (Status akvsCopy) = determineConfigMapName env akvs
      \<and> ConfigMapHash (Status akvsCopy) = cmHash
      \<and> LastAzureUpdate (Status akvsCopy) = clock c
      \<and> SecretName (Status akvsCopy) = SecretName (Status akvs)
      \<and> SecretHash (Status akvsCopy) = SecretHash (Status akvs))
   \<and> azureKeyVaultSecretLister (snd (updateAzureKeyVaultSecretStatusForConfigMap env c akvs cmHash))
        = azureKeyVaultSecretLister c
   \<and> (\<exists>akvsCopy.
      requests (snd (updateAzureKeyVaultSecretStatus c akvs secretName cmName secretHash' cmHash'))
        = requests c @ [UpdateStatus (Namespace akvs) akvsCopy]
      \<and> ObjectMeta.truncate akvsCopy = ObjectMeta.truncate akvs \<and> Spec akvsCopy = Spec akvs
      \<and> Status akvsCopy = \<lparr>SecretName = secretName, SecretHash = secretHash',
                              ConfigMapName = cmName, ConfigMapHash = cmHash', LastAzureUpdate = clock c\<rparr>)
   \<and> azureKeyVaultSecretLister (snd (updateAzureKeyVaultSecretStatus c akvs secretName cmName secretHash' cmHash'))
        = azureKeyVaultSecretLister c"
proof -
  let ?s = "akvs\<lparr>Status := (Status akvs)\<lparr>SecretName := determineSecretName env akvs,
                 SecretHash := secretHash, LastAzureUpdate := clock c\<rparr>\<rparr>"
  let ?m = "akvs\<lparr>Status := (Status akvs)\<lparr>ConfigMapName := determineConfigMapName env akvs,
                 ConfigMapHash := cmHash, LastAzureUpdate := clock c\<rparr>\<rparr>"
  let ?a = "akvs\<lparr>Status := (Status akvs)\<lparr>SecretName := secretName, SecretHash := secretHash',
                 ConfigMapName := cmName, ConfigMapHash := cmHash', LastAzureUpdate := clock c\<rparr>\<rparr>"
  have n: "Name ?s = Name akvs" "Name ?m = Name akvs" by simp_all
  have s: "updateAzureKeyVaultSecretStatusForSecret env c akvs secretHash
             = AzureKeyVaultSecrets_UpdateStatus c (Namespace akvs) ?s"
    by (simp add: updateAzureKeyVaultSecretStatusForSecret_def)
  have m: "updateAzureKeyVaultSecretStatusForConfigMap env c akvs cmHash
             = AzureKeyVaultSecrets_UpdateStatus c (Namespace akvs) ?m"
    by (simp add: updateAzureKeyVaultSecretStatusForConfigMap_def)
  have a: "updateAzureKeyVaultSecretStatus c akvs secretName cmName secretHash' cmHash'
             = AzureKeyVaultSecrets_UpdateStatus c (Namespace akvs) ?a"
    by (simp add: updateAzureKeyVaultSecretStatus_def)
  have 1: "\<exists>akvsCopy.
      requests (snd (updateAzureKeyVaultSecretStatusForSecret env c akvs secretHash))
        = requests c @ [UpdateStatus (Namespace akvs) akvsCopy]
      \<and> akvsClient (snd (updateAzureKeyVaultSecretStatusForSecret env c akvs secretHash)) (Namespace akvs, Name akvs)
          = map_option (\<lambda>stored. stored\<lparr>Status := Status akvsCopy\<rparr>) (akvsClient c (Namespace akvs, Name akvs))
      \<and> ObjectMeta.truncate akvsCopy = ObjectMeta.truncate akvs \<and> Spec akvsCopy = Spec akvs
      \<and> SecretName (Status akvsCopy) = determineSecretName env akvs
      \<and> SecretHash (Status akvsCopy) = secretHash
      \<and> LastAzureUpdate (Status akvsCopy) = clock c
      \<and> ConfigMapName (Status akvsCopy) = ConfigMapName (Status akvs)
      \<and> ConfigMapHash (Status akvsCopy) = ConfigMapHash (Status akvs)"
    using UpdateStatus_effect [of c "Namespace akvs" ?s]
    by (intro exI [of _ ?s]) (simp add: s ObjectMeta.truncate_def)
  have 2: "\<exists>akvsCopy.
      requests (snd (updateAzureKeyVaultSecretStatusForConfigMap env c akvs cmHash))
        = requests c @ [UpdateStatus (Namespace akvs) akvsCopy]
      \<and> akvsClient (snd (updateAzureKeyVaultSecretStatusForConfigMap env c akvs cmHash)) (Namespace akvs, Name akvs)
          = map_option (\<lambda>stored. stored\<lparr>Status := Status akvsCopy\<rparr>) (akvsClient c (Namespace akvs, Name akvs))
      \<and> ObjectMeta.truncate akvsCopy = ObjectMeta.truncate akvs \<and> Spec akvsCopy = Spec akvs
      \<and> ConfigMapName (Status akvsCopy) = determineConfigMapName env akvs
      \<and> ConfigMapHash (Status akvsCopy) = cmHash
      \<and> LastAzureUpdate (Status akvsCopy) = clock c
      \<and> SecretName (Status akvsCopy) = SecretName (Status akvs)
      \<and> SecretHash (Status akvsCopy) = SecretHash (Status akvs)"
    using UpdateStatus_effect [of c "Namespace akvs" ?m]
    by (intro exI [of _ ?m]) (simp add: m ObjectMeta.truncate_def)
  have 3: "\<exists>akvsCopy.
      requests (snd (updateAzureKeyVaultSecretStatus c akvs secretName cmName secretHash' cmHash'))
        = requests c @ [UpdateStatus (Namespace akvs) akvsCopy]
      \<and> ObjectMeta.truncate akvsCopy = ObjectMeta.truncate akvs \<and> Spec akvsCopy = Spec akvs
      \<and> Status akvsCopy = \<lparr>SecretName = secretName, SecretHash = secretHash',
                              ConfigMapName = cmName, ConfigMapHash = cmHash', LastAzureUpdate = clock c\<rparr>"
    using UpdateStatus_effect [of c "Namespace akvs" ?a]
    by (intro exI [of _ ?a]) (simp add: a ObjectMeta.truncate_def)
  show ?thesis
    using 1 2 3 UpdateStatus_effect [of c "Namespace akvs" ?s]
      UpdateStatus_effect [of c "Namespace akvs" ?m] UpdateStatus_effect [of c "Namespace akvs" ?a]
    by (simp only: s m a simp_thms)
qed

theorem C9_status_writes_witness:
  "azureKeyVaultSecretLister (snd (updateAzureKeyVaultSecretStatusForSecret (exampleEnv exampleVault)
        (exampleController secretOnly [] []) secretOnly ''h'')) (''ns'', ''foo'') = Some secretOnly
   \<and> azureKeyVaultSecretLister (snd (updateAzureKeyVaultSecretStatusForConfigMap (exampleEnv exampleVault)
        (exampleController secretOnly [] []) secretOnly ''h'')) (''ns'', ''foo'') = Some secretOnly"
  using C9_status_writes [of "exampleEnv exampleVault" "exampleController secretOnly [] []" secretOnly "''h''" "''h''"]
  by (simp add: exampleController_def secretOnly_def exampleResource_def)

section \<open>Vault reconciler: properties\<close>

text \<open>
  C4. The claim: on a digest mismatch the config map path reads the existing config map
  and writes it back, as the secret path does. For \<open>ns/foo\<close> with a config map output
  and an existing \<open>foo-cm\<close>, the pass sends an Update of a new object and the status
  write, and no Get: the stored config map becomes the new object. The secret path sends
  Get, Update, status write.
\<close>

theorem C4_config_map_not_read:
  "kubeConfigMaps (exampleController configMapOnly [] [foreignConfigMap]) (''ns'', ''foo-cm'') = Some foreignConfigMap
   \<and> fst (syncAzureKeyVault (exampleEnv exampleVault)
        (exampleController configMapOnly [] [foreignConfigMap]) ''ns/foo'') = Returns None
   \<and> requests (snd (syncAzureKeyVault (exampleEnv exampleVault)
        (exampleController configMapOnly [] [foreignConfigMap]) ''ns/foo''))
      = [ConfigMapsUpdate ''ns'' (newConfigMap configMapOnly [(''password'', ''p@ss'')]),
         UpdateStatus ''ns'' (configMapOnly\<lparr>Status := (Status configMapOnly)
            \<lparr>ConfigMapName := ''foo-cm'', ConfigMapHash := ''password=p@ss;'', LastAzureUpdate := 7\<rparr>\<rparr>)]
   \<and> kubeConfigMaps (snd (syncAzureKeyVault (exampleEnv exampleVault)
        (exampleController configMapOnly [] [foreignConfigMap]) ''ns/foo'')) (''ns'', ''foo-cm'')
      = Some (newConfigMap configMapOnly [(''password'', ''p@ss'')])
   \<and> requests (snd (syncAzureKeyVault (exampleEnv exampleVault)
        (exampleController secretOnly [ownedSecret] []) ''ns/foo''))
      = [SecretsGet ''ns'' ''foo-secret'',
         SecretsUpdate ''ns'' (ownedSecret\<lparr>Data := [(''password'', ''p@ss'')]\<rparr>),
         UpdateStatus ''ns'' (secretOnly\<lparr>Status := (Status secretOnly)
            \<lparr>SecretName := ''foo-secret'', SecretHash := ''password=p@ss;'', LastAzureUpdate := 7\<rparr>\<rparr>)]"
  by (simp add: syncAzureKeyVault_def getAzureKeyVaultSecret_def SplitMetaNamespaceKey_def akvsHasOutputSecret_def akvsHasOutputConfigMap_def
          syncSecretOutput_def syncConfigMapOutput_def refreshSecret_def refreshConfigMap_def
          getSecretFromKeyVault_def getConfigMapFromKeyVault_def
          updateAzureKeyVaultSecretStatusForSecret_def updateAzureKeyVaultSecretStatusForConfigMap_def
          Secrets_Get_def Secrets_Update_def ConfigMaps_Update_def AzureKeyVaultSecrets_UpdateStatus_def
          request_def recordEvent_def logs_def Let_def example_defs)

lemma nativeWrites_simps:
  "nativeWrites (recordEvent e c) = nativeWrites c"
  "nativeWrites (logs l c) = nativeWrites c"
  "nativeWrites (request r c) = nativeWrites c + (if isNativeWrite r then 1 else 0)"
  by (simp_all add: nativeWrites_def recordEvent_def logs_def request_def)

lemma statusWrites_simps:
  "statusWrites (recordEvent e c) = statusWrites c"
  "statusWrites (logs l c) = statusWrites c"
  "statusWrites (request r c) = statusWrites c + (if isStatusWrite r then 1 else 0)"
  by (simp_all add: statusWrites_def recordEvent_def logs_def request_def)

lemma UpdateStatus_stored:
  assumes "akvsClient c (ns, Name akvsCopy) = Some stored"
  shows "AzureKeyVaultSecrets_UpdateStatus c ns akvsCopy =
           (None, request (UpdateStatus ns akvsCopy)
                    (c\<lparr>akvsClient := (akvsClient c)((ns, Name akvsCopy) \<mapsto> stored\<lparr>Status := Status akvsCopy\<rparr>)\<rparr>))"
  using assms by (simp add: AzureKeyVaultSecrets_UpdateStatus_def)

lemma statusForSecret_eq:
  assumes "akvsClient c (Namespace akvs, Name akvs) = Some stored"
  shows "updateAzureKeyVaultSecretStatusForSecret env c akvs h =
    (None, request (UpdateStatus (Namespace akvs)
             (akvs\<lparr>Status := (Status akvs)\<lparr>SecretName := determineSecretName env akvs,
                      SecretHash := h, LastAzureUpdate := clock c\<rparr>\<rparr>))
            (c\<lparr>akvsClient := (akvsClient c)((Namespace akvs, Name akvs) \<mapsto>
                 stored\<lparr>Status := (Status akvs)\<lparr>SecretName := determineSecretName env akvs,
                      SecretHash := h, LastAzureUpdate := clock c\<rparr>\<rparr>)\<rparr>))"
  using assms
  by (simp add: updateAzureKeyVaultSecretStatusForSecret_def UpdateStatus_stored Let_def)

lemma statusForConfigMap_eq:
  assumes "akvsClient c (Namespace akvs, Name akvs) = Some stored"
  shows "updateAzureKeyVaultSecretStatusForConfigMap env c akvs h =
    (None, request (UpdateStatus (Namespace akvs)
             (akvs\<lparr>Status := (Status akvs)\<lparr>ConfigMapName := determineConfigMapName env akvs,
                      ConfigMapHash := h, LastAzureUpdate := clock c\<rparr>\<rparr>))
            (c\<lparr>akvsClient := (akvsClient c)((Namespace akvs, Name akvs) \<mapsto>
                 stored\<lparr>Status := (Status akvs)\<lparr>ConfigMapName := determineConfigMapName env akvs,
                      ConfigMapHash := h, LastAzureUpdate := clock c\<rparr>\<rparr>)\<rparr>))"
  using assms
  by (simp add: updateAzureKeyVaultSecretStatusForConfigMap_def UpdateStatus_stored Let_def)

lemma statusForSecret_stored:
  assumes "akvsClient c (Namespace akvs, Name akvs) = Some stored"
  shows "fst (updateAzureKeyVaultSecretStatusForSecret env c akvs h) = None"
    and "nativeWrites (snd (updateAzureKeyVaultSecretStatusForSecret env c akvs h)) = nativeWrites c"
    and "statusWrites (snd (updateAzureKeyVaultSecretStatusForSecret env c akvs h)) = statusWrites c + 1"
    and "\<exists>st. SecretHash st = h \<and> ConfigMapHash st = ConfigMapHash (Status akvs)
          \<and> akvsClient (snd (updateAzureKeyVaultSecretStatusForSecret env c akvs h))
              = (akvsClient c)((Namespace akvs, Name akvs) \<mapsto> stored\<lparr>Status := st\<rparr>)"
proof -
  note e = statusForSecret_eq [OF assms, of env h]
  show "fst (updateAzureKeyVaultSecretStatusForSecret env c akvs h) = None"
    by (simp add: e)
  show "nativeWrites (snd (updateAzureKeyVaultSecretStatusForSecret env c akvs h)) = nativeWrites c"
    by (simp add: e nativeWrites_def request_def)
  show "statusWrites (snd (updateAzureKeyVaultSecretStatusForSecret env c akvs h)) = statusWrites c + 1"
    by (simp add: e statusWrites_def request_def)
  show "\<exists>st. SecretHash st = h \<and> ConfigMapHash st = ConfigMapHash (Status akvs)
          \<and> akvsClient (snd (updateAzureKeyVaultSecretStatusForSecret env c akvs h))
              = (akvsClient c)((Namespace akvs, Name akvs) \<mapsto> stored\<lparr>Status := st\<rparr>)"
    by (rule exI [of _ "(Status akvs)\<lparr>SecretName := determineSecretName env akvs,
                      SecretHash := h, LastAzureUpdate := clock c\<rparr>"])
       (simp add: e request_def)
qed

lemma statusForConfigMap_stored:
  assumes "akvsClient c (Namespace akvs, Name akvs) = Some stored"
  shows "fst (updateAzureKeyVaultSecretStatusForConfigMap env c akvs h) = None"
    and "nativeWrites (snd (updateAzureKeyVaultSecretStatusForConfigMap env c akvs h)) = nativeWrites c"
    and "statusWrites (snd (updateAzureKeyVaultSecretStatusForConfigMap env c akvs h)) = statusWrites c + 1"
    and "\<exists>st. ConfigMapHash st = h \<and> SecretHash st = SecretHash (Status akvs)
          \<and> akvsClient (snd (updateAzureKeyVaultSecretStatusForConfigMap env c akvs h))
              = (akvsClient c)((Namespace akvs, Name akvs) \<mapsto> stored\<lparr>Status := st\<rparr>)"
proof -
  note e = statusForConfigMap_eq [OF assms, of env h]
  show "fst (updateAzureKeyVaultSecretStatusForConfigMap env c akvs h) = None"
    by (simp add: e)
  show "nativeWrites (snd (updateAzureKeyVaultSecretStatusForConfigMap env c akvs h)) = nativeWrites c"
    by (simp add: e nativeWrites_def request_def)
  show "statusWrites (snd (updateAzureKeyVaultSecretStatusForConfigMap env c akvs h)) = statusWrites c + 1"
    by (simp add: e statusWrites_def request_def)
  show "\<exists>st. ConfigMapHash st = h \<and> SecretHash st = SecretHash (Status akvs)
          \<and> akvsClient (snd (updateAzureKeyVaultSecretStatusForConfigMap env c akvs h))
              = (akvsClient c)((Namespace akvs, Name akvs) \<mapsto> stored\<lparr>Status := st\<rparr>)"
    by (rule exI [of _ "(Status akvs)\<lparr>ConfigMapName := determineConfigMapName env akvs,
                      ConfigMapHash := h, LastAzureUpdate := clock c\<rparr>"])
       (simp add: e request_def)
qed

lemma syncSecretOutput_inSync:
  "secretInSync env akvs \<Longrightarrow>
   syncSecretOutput env c key akvs =
     updateAzureKeyVaultSecretStatusForSecret env c akvs (SecretHash (Status akvs))"
  by (auto simp add: secretInSync_def syncSecretOutput_def Let_def split: sum.splits prod.splits option.splits)

lemma syncConfigMapOutput_inSync:
  "configMapInSync env akvs \<Longrightarrow>
   syncConfigMapOutput env c key akvs =
     updateAzureKeyVaultSecretStatusForConfigMap env c akvs (ConfigMapHash (Status akvs))"
  by (auto simp add: configMapInSync_def syncConfigMapOutput_def Let_def split: sum.splits prod.splits option.splits)

text \<open>The secret block in sync: one status write, success, the stored resource still there.\<close>

lemma secretBlock_inSync:
  assumes "akvsClient c (Namespace akvs, Name akvs) = Some stored"
    and "akvsHasOutputSecret akvs \<longrightarrow> secretInSync env akvs"
  shows "\<exists>c1 stored1.
      (if akvsHasOutputSecret akvs then syncSecretOutput env c key akvs else (None, c)) = (None, c1)
      \<and> nativeWrites c1 = nativeWrites c
      \<and> statusWrites c1 = statusWrites c + (if akvsHasOutputSecret akvs then 1 else 0)
      \<and> akvsClient c1 (Namespace akvs, Name akvs) = Some stored1"
proof (cases "akvsHasOutputSecret akvs")
  case False
  then show ?thesis using assms by simp
next
  case True
  let ?r = "updateAzureKeyVaultSecretStatusForSecret env c akvs (SecretHash (Status akvs))"
  have e: "syncSecretOutput env c key akvs = ?r"
    using True assms(2) by (simp add: syncSecretOutput_inSync)
  from statusForSecret_stored(4) [OF assms(1), where env = env and h = "SecretHash (Status akvs)"]
  obtain st where st: "akvsClient (snd ?r) = (akvsClient c)((Namespace akvs, Name akvs) \<mapsto> stored\<lparr>Status := st\<rparr>)"
    by blast
  have "?r = (None, snd ?r)"
    using statusForSecret_stored(1) [OF assms(1), where env = env and h = "SecretHash (Status akvs)"]
    by (simp add: prod_eq_iff)
  then show ?thesis
    using True e st statusForSecret_stored(2,3) [OF assms(1), where env = env and h = "SecretHash (Status akvs)"]
    by (intro exI [of _ "snd ?r"] exI [of _ "stored\<lparr>Status := st\<rparr>"]) simp
qed

lemma configMapBlock_inSync:
  assumes "akvsClient c (Namespace akvs, Name akvs) = Some stored"
    and "akvsHasOutputConfigMap akvs \<longrightarrow> configMapInSync env akvs"
  shows "\<exists>c1.
      (if akvsHasOutputConfigMap akvs then syncConfigMapOutput env c key akvs else (None, c)) = (None, c1)
      \<and> nativeWrites c1 = nativeWrites c
      \<and> statusWrites c1 = statusWrites c + (if akvsHasOutputConfigMap akvs then 1 else 0)"
proof (cases "akvsHasOutputConfigMap akvs")
  case False
  then show ?thesis by simp
next
  case True
  let ?r = "updateAzureKeyVaultSecretStatusForConfigMap env c akvs (ConfigMapHash (Status akvs))"
  have e: "syncConfigMapOutput env c key akvs = ?r"
    using True assms(2) by (simp add: syncConfigMapOutput_inSync)
  have "?r = (None, snd ?r)"
    using statusForConfigMap_stored(1) [OF assms(1), where env = env and h = "ConfigMapHash (Status akvs)"]
    by (simp add: prod_eq_iff)
  then show ?thesis
    using True e statusForConfigMap_stored(2,3) [OF assms(1), where env = env and h = "ConfigMapHash (Status akvs)"]
    by (intro exI [of _ "snd ?r"]) simp
qed

lemma pass_inSync:
  assumes "getAzureKeyVaultSecret c key = Inr akvs"
    and "akvsHasOutputSecret akvs \<longrightarrow> secretInSync env akvs"
    and "akvsHasOutputConfigMap akvs \<longrightarrow> configMapInSync env akvs"
    and "akvsClient c (Namespace akvs, Name akvs) = Some stored"
  shows "fst (syncAzureKeyVault env c key) = Returns None
    \<and> nativeWrites (snd (syncAzureKeyVault env c key)) = nativeWrites c
    \<and> statusWrites (snd (syncAzureKeyVault env c key)) =
        statusWrites c + (if akvsHasOutputSecret akvs then 1 else 0)
                       + (if akvsHasOutputConfigMap akvs then 1 else 0)"
proof -
  from secretBlock_inSync [OF assms(4) assms(2), where key = key]
  obtain c1 stored1 where 1:
    "(if akvsHasOutputSecret akvs then syncSecretOutput env c key akvs else (None, c)) = (None, c1)"
    "nativeWrites c1 = nativeWrites c"
    "statusWrites c1 = statusWrites c + (if akvsHasOutputSecret akvs then 1 else 0)"
    "akvsClient c1 (Namespace akvs, Name akvs) = Some stored1"
    by blast
  from configMapBlock_inSync [OF 1(4) assms(3), where key = key]
  obtain c2 where 2:
    "(if akvsHasOutputConfigMap akvs then syncConfigMapOutput env c1 key akvs else (None, c1)) = (None, c2)"
    "nativeWrites c2 = nativeWrites c1"
    "statusWrites c2 = statusWrites c1 + (if akvsHasOutputConfigMap akvs then 1 else 0)"
    by blast
  have "syncAzureKeyVault env c key =
          (Returns None,
           recordEvent (Event (OnAzureKeyVaultSecret akvs) EventTypeNormal SuccessSynced
                          MessageAzureKeyVaultSecretSyncedWithAzureKeyVault) c2)"
    unfolding syncAzureKeyVault_def using assms(1) 1(1) 2(1) by simp
  then show ?thesis
    using 1(2,3) 2(2,3) by (simp add: nativeWrites_simps statusWrites_simps)
qed

lemma refreshSecret_success:
  assumes "refreshSecret env c akvs v = (None, c')"
  shows "akvsClient c' = akvsClient c \<and> nativeWrites c' = nativeWrites c + 1 \<and> clock c' = clock c"
  using assms
  by (auto simp add: refreshSecret_def Secrets_Get_def Secrets_Update_def Let_def
        nativeWrites_def request_def logs_def
        split: option.splits sum.splits prod.splits)

lemma refreshConfigMap_success:
  assumes "refreshConfigMap env c akvs v = (None, c')"
  shows "akvsClient c' = akvsClient c \<and> nativeWrites c' = nativeWrites c + 1 \<and> clock c' = clock c"
  using assms
  by (auto simp add: refreshConfigMap_def ConfigMaps_Update_def Let_def
        nativeWrites_def request_def logs_def
        split: option.splits sum.splits prod.splits)

lemma secretBlock_success:
  assumes "syncSecretOutput env c key akvs = (None, c1)"
    and "akvsClient c (Namespace akvs, Name akvs) = Some stored"
  shows "\<exists>v st. getSecretFromKeyVault env akvs = Inr v
           \<and> SecretHash st = getMD5HashOfByteValues env v
           \<and> akvsClient c1 = (akvsClient c)((Namespace akvs, Name akvs) \<mapsto> stored\<lparr>Status := st\<rparr>)
           \<and> nativeWrites c1 = nativeWrites c + (if secretDrift env akvs then 1 else 0)"
proof (cases "getSecretFromKeyVault env akvs")
  case (Inl err)
  then show ?thesis using assms(1) by (simp add: syncSecretOutput_def Let_def)
next
  case (Inr v)
  let ?h = "getMD5HashOfByteValues env v"
  show ?thesis
  proof (cases "SecretHash (Status akvs) = ?h")
    case True
    have e: "updateAzureKeyVaultSecretStatusForSecret env c akvs ?h = (None, c1)"
      using assms(1) Inr True by (simp add: syncSecretOutput_def Let_def)
    from statusForSecret_stored(2,4) [OF assms(2), where env = env and h = ?h] e
    show ?thesis using Inr True by (auto simp add: secretDrift_def)
  next
    case False
    obtain r c' where rc: "refreshSecret env c akvs v = (r, c')"
      by (cases "refreshSecret env c akvs v") auto
    have r: "r = None"
      using assms(1) Inr False rc by (cases r) (simp_all add: syncSecretOutput_def Let_def)
    have e: "updateAzureKeyVaultSecretStatusForSecret env c' akvs ?h = (None, c1)"
      using assms(1) Inr False rc r by (simp add: syncSecretOutput_def Let_def)
    from refreshSecret_success [of env c akvs v c'] rc r
    have f: "akvsClient c' = akvsClient c" "nativeWrites c' = nativeWrites c + 1" by simp_all
    have st': "akvsClient c' (Namespace akvs, Name akvs) = Some stored"
      using f(1) assms(2) by simp
    from statusForSecret_stored(2,4) [OF st', where env = env and h = ?h] e
    show ?thesis using Inr False f by (auto simp add: secretDrift_def)
  qed
qed

lemma configMapBlock_success:
  assumes "syncConfigMapOutput env c key akvs = (None, c1)"
    and "akvsClient c (Namespace akvs, Name akvs) = Some stored"
  shows "\<exists>v st. getConfigMapFromKeyVault env akvs = Inr v
           \<and> ConfigMapHash st = getMD5HashOfStringValues env v
           \<and> akvsClient c1 = (akvsClient c)((Namespace akvs, Name akvs) \<mapsto> stored\<lparr>Status := st\<rparr>)
           \<and> nativeWrites c1 = nativeWrites c + (if configMapDrift env akvs then 1 else 0)"
proof (cases "getConfigMapFromKeyVault env akvs")
  case (Inl err)
  then show ?thesis using assms(1) by (simp add: syncConfigMapOutput_def Let_def)
next
  case (Inr v)
  let ?h = "getMD5HashOfStringValues env v"
  show ?thesis
  proof (cases "ConfigMapHash (Status akvs) = ?h")
    case True
    have e: "updateAzureKeyVaultSecretStatusForConfigMap env c akvs ?h = (None, c1)"
      using assms(1) Inr True by (simp add: syncConfigMapOutput_def Let_def)
    from statusForConfigMap_stored(2,4) [OF assms(2), where env = env and h = ?h] e
    show ?thesis using Inr True by (auto simp add: configMapDrift_def)
  next
    case False
    obtain r c' where rc: "refreshConfigMap env c akvs v = (r, c')"
      by (cases "refreshConfigMap env c akvs v") auto
    have r: "r = None"
      using assms(1) Inr False rc by (cases r) (simp_all add: syncConfigMapOutput_def Let_def)
    have e: "updateAzureKeyVaultSecretStatusForConfigMap env c' akvs ?h = (None, c1)"
      using assms(1) Inr False rc r by (simp add: syncConfigMapOutput_def Let_def)
    from refreshConfigMap_success [of env c akvs v c'] rc r
    have f: "akvsClient c' = akvsClient c" "nativeWrites c' = nativeWrites c + 1" by simp_all
    have st': "akvsClient c' (Namespace akvs, Name akvs) = Some stored"
      using f(1) assms(2) by simp
    from statusForConfigMap_stored(2,4) [OF st', where env = env and h = ?h] e
    show ?thesis using Inr False f by (auto simp add: configMapDrift_def)
  qed
qed

lemma informerResync_simps:
  "azureKeyVaultSecretLister (informerResync c) = akvsClient c"
  "akvsClient (informerResync c) = akvsClient c"
  "nativeWrites (informerResync c) = nativeWrites c"
  by (simp_all add: informerResync_def nativeWrites_def)

lemma recordEvent_simps:
  "akvsClient (recordEvent e c) = akvsClient c"
  by (simp add: recordEvent_def)

lemma get_resolved:
  assumes "SplitMetaNamespaceKey key = Inr (ns, name)"
    and "azureKeyVaultSecretLister c (ns, name) = Some akvs"
  shows "getAzureKeyVaultSecret c key = Inr akvs"
  using assms by (simp add: getAzureKeyVaultSecret_def)

lemma hasOutput_Status:
  "akvsHasOutputSecret (akvs\<lparr>Status := st\<rparr>) = akvsHasOutputSecret akvs"
  "akvsHasOutputConfigMap (akvs\<lparr>Status := st\<rparr>) = akvsHasOutputConfigMap akvs"
  by (simp_all add: akvsHasOutputSecret_def akvsHasOutputConfigMap_def)

text \<open>The second pass: the lister holds the resource with the status of the first pass.\<close>

lemma second_pass:
  assumes key: "SplitMetaNamespaceKey key = Inr (Namespace akvs, Name akvs)"
    and stored: "akvsClient c1 (Namespace akvs, Name akvs) = Some (akvs\<lparr>Status := st\<rparr>)"
    and s: "akvsHasOutputSecret akvs \<longrightarrow> secretInSync env (akvs\<lparr>Status := st\<rparr>)"
    and m: "akvsHasOutputConfigMap akvs \<longrightarrow> configMapInSync env (akvs\<lparr>Status := st\<rparr>)"
  shows "fst (syncAzureKeyVault env (informerResync c1) key) = Returns None
    \<and> nativeWrites (snd (syncAzureKeyVault env (informerResync c1) key)) = nativeWrites c1"
proof -
  let ?a = "akvs\<lparr>Status := st\<rparr>"
  have g: "getAzureKeyVaultSecret (informerResync c1) key = Inr ?a"
    using key stored by (intro get_resolved) (simp_all add: informerResync_simps)
  have st: "akvsClient (informerResync c1) (Namespace ?a, Name ?a) = Some ?a"
    using stored by (simp add: informerResync_simps)
  from pass_inSync [OF g _ _ st, where env = env] s m
  show ?thesis by (simp add: hasOutput_Status informerResync_simps)
qed

text \<open>
  C3 as claimed fails: with the digest equal to the stored hash, the pass still writes
  the status.
\<close>

theorem C3_counterexample:
  "secretInSync (exampleEnv exampleVault) secretOnlyInSync
   \<and> fst (syncAzureKeyVault (exampleEnv exampleVault)
        (exampleController secretOnlyInSync [ownedSecret] []) ''ns/foo'') = Returns None
   \<and> requests (snd (syncAzureKeyVault (exampleEnv exampleVault)
        (exampleController secretOnlyInSync [ownedSecret] []) ''ns/foo''))
      = [UpdateStatus ''ns'' (secretOnlyInSync\<lparr>Status := (Status secretOnlyInSync)
            \<lparr>SecretName := ''foo-secret'', LastAzureUpdate := 7\<rparr>\<rparr>)]
   \<and> statusWrites (snd (syncAzureKeyVault (exampleEnv exampleVault)
        (exampleController secretOnlyInSync [ownedSecret] []) ''ns/foo'')) = 1"
  by (simp add: syncAzureKeyVault_def getAzureKeyVaultSecret_def SplitMetaNamespaceKey_def akvsHasOutputSecret_def akvsHasOutputConfigMap_def
          syncSecretOutput_def secretInSync_def statusWrites_def
          getSecretFromKeyVault_def
          updateAzureKeyVaultSecretStatusForSecret_def
          AzureKeyVaultSecrets_UpdateStatus_def
          request_def recordEvent_def logs_def Let_def example_defs)

text \<open>
  C3, amended. When every defined output is in sync and the resource is stored, the pass
  succeeds with no native-object write and with one status write for each defined output.
\<close>

theorem C3_in_sync_pass:
  assumes "getAzureKeyVaultSecret c key = Inr akvs"
    and "akvsHasOutputSecret akvs \<longrightarrow> secretInSync env akvs"
    and "akvsHasOutputConfigMap akvs \<longrightarrow> configMapInSync env akvs"
    and "akvsClient c (Namespace akvs, Name akvs) = Some stored"
  shows "fst (syncAzureKeyVault env c key) = Returns None
    \<and> nativeWrites (snd (syncAzureKeyVault env c key)) = nativeWrites c
    \<and> statusWrites (snd (syncAzureKeyVault env c key)) =
        statusWrites c + (if akvsHasOutputSecret akvs then 1 else 0)
                       + (if akvsHasOutputConfigMap akvs then 1 else 0)"
  using assms by (rule pass_inSync)

theorem C3_in_sync_pass_witness:
  "getAzureKeyVaultSecret (exampleController secretOnlyInSync [ownedSecret] []) ''ns/foo'' = Inr secretOnlyInSync
   \<and> akvsHasOutputSecret secretOnlyInSync \<and> \<not> akvsHasOutputConfigMap secretOnlyInSync
   \<and> secretInSync (exampleEnv exampleVault) secretOnlyInSync
   \<and> akvsClient (exampleController secretOnlyInSync [ownedSecret] []) (''ns'', ''foo'') = Some secretOnlyInSync
   \<and> fst (syncAzureKeyVault (exampleEnv exampleVault)
        (exampleController secretOnlyInSync [ownedSecret] []) ''ns/foo'') = Returns None
   \<and> nativeWrites (snd (syncAzureKeyVault (exampleEnv exampleVault)
        (exampleController secretOnlyInSync [ownedSecret] []) ''ns/foo'')) = 0
   \<and> statusWrites (snd (syncAzureKeyVault (exampleEnv exampleVault)
        (exampleController secretOnlyInSync [ownedSecret] []) ''ns/foo'')) = 1"
proof -
  let ?c = "exampleController secretOnlyInSync [ownedSecret] []"
  have n: "Namespace secretOnlyInSync = ''ns''" "Name secretOnlyInSync = ''foo''"
    by (simp_all add: secretOnlyInSync_def exampleResource_def)
  have h1: "getAzureKeyVaultSecret ?c ''ns/foo'' = Inr secretOnlyInSync"
    by (simp add: get_example n)
  have h2: "akvsHasOutputSecret secretOnlyInSync" "\<not> akvsHasOutputConfigMap secretOnlyInSync"
    by (simp_all add: akvsHasOutputSecret_def akvsHasOutputConfigMap_def secretOnlyInSync_def exampleResource_def)
  have h3: "secretInSync (exampleEnv exampleVault) secretOnlyInSync"
    by (simp add: secretInSync_def getSecretFromKeyVault_def example_defs)
  have h4: "akvsClient ?c (Namespace secretOnlyInSync, Name secretOnlyInSync) = Some secretOnlyInSync"
    by (simp add: n exampleController_def)
  have z: "nativeWrites ?c = 0" "statusWrites ?c = 0"
    by (simp_all add: nativeWrites_def statusWrites_def exampleController_def)
  show ?thesis
    using h1 h2 h3 h4 z
      C3_in_sync_pass [of ?c "''ns/foo''" secretOnlyInSync "exampleEnv exampleVault" secretOnlyInSync]
    by (simp add: n)
qed

text \<open>
  C2 as claimed fails for a resource with both outputs: the first pass writes two native
  objects, the secret and the config map (and the second pass writes the secret again).
\<close>

theorem C2_counterexample:
  "akvsHasOutputDefined bothOutputs
   \<and> fst (syncAzureKeyVault (exampleEnv exampleVault)
        (exampleController bothOutputs [ownedSecret] [ownedConfigMap]) ''ns/foo'') = Returns None
   \<and> nativeWrites (exampleController bothOutputs [ownedSecret] [ownedConfigMap]) = 0
   \<and> nativeWrites (snd (syncAzureKeyVault (exampleEnv exampleVault)
        (exampleController bothOutputs [ownedSecret] [ownedConfigMap]) ''ns/foo'')) = 2
   \<and> fst (syncAzureKeyVault (exampleEnv exampleVault)
        (informerResync (snd (syncAzureKeyVault (exampleEnv exampleVault)
        (exampleController bothOutputs [ownedSecret] [ownedConfigMap]) ''ns/foo''))) ''ns/foo'') = Returns None
   \<and> nativeWrites (snd (syncAzureKeyVault (exampleEnv exampleVault)
        (informerResync (snd (syncAzureKeyVault (exampleEnv exampleVault)
        (exampleController bothOutputs [ownedSecret] [ownedConfigMap]) ''ns/foo''))) ''ns/foo'')) = 3"
  by (simp add: vault_reconciler_defs example_defs nativeWrites_def informerResync_def akvsHasOutputDefined_def)

text \<open>
  C2, amended. For a resource with exactly one output kind, stored as the lister holds
  it, and a vault whose answer does not depend on the status: if the first pass succeeds,
  it has made one native-object write when the digest differed from the stored hash and
  none otherwise, and the second pass, after the informer has delivered the new status,
  succeeds with no native-object write.
\<close>

theorem C2_idempotent_single_output:
  assumes resolved: "getAzureKeyVaultSecret c key = Inr akvs"
    and key: "SplitMetaNamespaceKey key = Inr (Namespace akvs, Name akvs)"
    and stored: "akvsClient c (Namespace akvs, Name akvs) = Some akvs"
    and one: "akvsHasOutputSecret akvs \<noteq> akvsHasOutputConfigMap akvs"
    and unchangedSecret: "\<forall>st. getSecretFromKeyVault env (akvs\<lparr>Status := st\<rparr>) = getSecretFromKeyVault env akvs"
    and unchangedConfigMap:
      "\<forall>st. getConfigMapFromKeyVault env (akvs\<lparr>Status := st\<rparr>) = getConfigMapFromKeyVault env akvs"
    and first: "syncAzureKeyVault env c key = (Returns None, c1)"
  shows "nativeWrites c1 = nativeWrites c +
           (if (akvsHasOutputSecret akvs \<and> secretDrift env akvs)
               \<or> (akvsHasOutputConfigMap akvs \<and> configMapDrift env akvs) then 1 else 0)
    \<and> fst (syncAzureKeyVault env (informerResync c1) key) = Returns None
    \<and> nativeWrites (snd (syncAzureKeyVault env (informerResync c1) key)) = nativeWrites c1"
proof (cases "akvsHasOutputSecret akvs")
  case True
  then have noCm: "\<not> akvsHasOutputConfigMap akvs" using one by simp
  obtain r c' where rc: "syncSecretOutput env c key akvs = (r, c')"
    by (cases "syncSecretOutput env c key akvs") auto
  have r: "r = None"
    using first resolved True rc by (cases r) (simp_all add: syncAzureKeyVault_def)
  have c1: "c1 = recordEvent (Event (OnAzureKeyVaultSecret akvs) EventTypeNormal SuccessSynced
                          MessageAzureKeyVaultSecretSyncedWithAzureKeyVault) c'"
    using first resolved True noCm rc r by (simp add: syncAzureKeyVault_def)
  from secretBlock_success [OF rc [unfolded r] stored]
  obtain v st where b: "getSecretFromKeyVault env akvs = Inr v"
    "SecretHash st = getMD5HashOfByteValues env v"
    "akvsClient c' = (akvsClient c)((Namespace akvs, Name akvs) \<mapsto> akvs\<lparr>Status := st\<rparr>)"
    "nativeWrites c' = nativeWrites c + (if secretDrift env akvs then 1 else 0)"
    by blast
  have st1: "akvsClient c1 (Namespace akvs, Name akvs) = Some (akvs\<lparr>Status := st\<rparr>)"
    using b(3) by (simp add: c1 recordEvent_simps)
  have sync: "secretInSync env (akvs\<lparr>Status := st\<rparr>)"
    using unchangedSecret b(1,2) by (simp add: secretInSync_def)
  from second_pass [OF key st1, where env = env] sync noCm
  have "fst (syncAzureKeyVault env (informerResync c1) key) = Returns None
    \<and> nativeWrites (snd (syncAzureKeyVault env (informerResync c1) key)) = nativeWrites c1"
    by simp
  then show ?thesis
    using True noCm b(4) by (simp add: c1 nativeWrites_simps)
next
  case False
  then have cm: "akvsHasOutputConfigMap akvs" using one by simp
  obtain r c' where rc: "syncConfigMapOutput env c key akvs = (r, c')"
    by (cases "syncConfigMapOutput env c key akvs") auto
  have r: "r = None"
    using first resolved False cm rc by (cases r) (simp_all add: syncAzureKeyVault_def)
  have c1: "c1 = recordEvent (Event (OnAzureKeyVaultSecret akvs) EventTypeNormal SuccessSynced
                          MessageAzureKeyVaultSecretSyncedWithAzureKeyVault) c'"
    using first resolved False cm rc r by (simp add: syncAzureKeyVault_def)
  from configMapBlock_success [OF rc [unfolded r] stored]
  obtain v st where b: "getConfigMapFromKeyVault env akvs = Inr v"
    "ConfigMapHash st = getMD5HashOfStringValues env v"
    "akvsClient c' = (akvsClient c)((Namespace akvs, Name akvs) \<mapsto> akvs\<lparr>Status := st\<rparr>)"
    "nativeWrites c' = nativeWrites c + (if configMapDrift env akvs then 1 else 0)"
    by blast
  have st1: "akvsClient c1 (Namespace akvs, Name akvs) = Some (akvs\<lparr>Status := st\<rparr>)"
    using b(3) by (simp add: c1 recordEvent_simps)
  have sync: "configMapInSync env (akvs\<lparr>Status := st\<rparr>)"
    using unchangedConfigMap b(1,2) by (simp add: configMapInSync_def)
  from second_pass [OF key st1, where env = env] sync False
  have "fst (syncAzureKeyVault env (informerResync c1) key) = Returns None
    \<and> nativeWrites (snd (syncAzureKeyVault env (informerResync c1) key)) = nativeWrites c1"
    by simp
  then show ?thesis
    using False cm b(4) by (simp add: c1 nativeWrites_simps)
qed

theorem C2_idempotent_single_output_witness:
  "getAzureKeyVaultSecret (exampleController secretOnly [ownedSecret] []) ''ns/foo'' = Inr secretOnly
   \<and> SplitMetaNamespaceKey ''ns/foo'' = Inr (Namespace secretOnly, Name secretOnly)
   \<and> akvsClient (exampleController secretOnly [ownedSecret] []) (Namespace secretOnly, Name secretOnly)
        = Some secretOnly
   \<and> akvsHasOutputSecret secretOnly \<noteq> akvsHasOutputConfigMap secretOnly
   \<and> (\<forall>st. getSecretFromKeyVault (exampleEnv exampleVault) (secretOnly\<lparr>Status := st\<rparr>)
             = getSecretFromKeyVault (exampleEnv exampleVault) secretOnly)
   \<and> (\<forall>st. getConfigMapFromKeyVault (exampleEnv exampleVault) (secretOnly\<lparr>Status := st\<rparr>)
             = getConfigMapFromKeyVault (exampleEnv exampleVault) secretOnly)
   \<and> fst (syncAzureKeyVault (exampleEnv exampleVault)
        (exampleController secretOnly [ownedSecret] []) ''ns/foo'') = Returns None
   \<and> secretDrift (exampleEnv exampleVault) secretOnly
   \<and> nativeWrites (snd (syncAzureKeyVault (exampleEnv exampleVault)
        (exampleController secretOnly [ownedSecret] []) ''ns/foo'')) = 1
   \<and> nativeWrites (snd (syncAzureKeyVault (exampleEnv exampleVault)
        (informerResync (snd (syncAzureKeyVault (exampleEnv exampleVault)
           (exampleController secretOnly [ownedSecret] []) ''ns/foo''))) ''ns/foo'')) = 1"
proof -
  let ?c = "exampleController secretOnly [ownedSecret] []"
  let ?env = "exampleEnv exampleVault"
  have n: "Namespace secretOnly = ''ns''" "Name secretOnly = ''foo''"
    by (simp_all add: secretOnly_def exampleResource_def)
  have h1: "getAzureKeyVaultSecret ?c ''ns/foo'' = Inr secretOnly"
    by (simp add: get_example n)
  have h2: "SplitMetaNamespaceKey ''ns/foo'' = Inr (Namespace secretOnly, Name secretOnly)"
    by (simp add: n SplitMetaNamespaceKey_def)
  have h3: "akvsClient ?c (Namespace secretOnly, Name secretOnly) = Some secretOnly"
    by (simp add: n exampleController_def)
  have h4: "akvsHasOutputSecret secretOnly \<noteq> akvsHasOutputConfigMap secretOnly"
    by (simp add: akvsHasOutputSecret_def akvsHasOutputConfigMap_def secretOnly_def exampleResource_def)
  have h5: "\<forall>st. getSecretFromKeyVault ?env (secretOnly\<lparr>Status := st\<rparr>) = getSecretFromKeyVault ?env secretOnly"
    by (simp add: getSecretFromKeyVault_def example_defs)
  have h6: "\<forall>st. getConfigMapFromKeyVault ?env (secretOnly\<lparr>Status := st\<rparr>) = getConfigMapFromKeyVault ?env secretOnly"
    by (simp add: getConfigMapFromKeyVault_def example_defs)
  have h7: "fst (syncAzureKeyVault ?env ?c ''ns/foo'') = Returns None"
    by (simp add: vault_reconciler_defs example_defs)
  then have h7': "syncAzureKeyVault ?env ?c ''ns/foo'' = (Returns None, snd (syncAzureKeyVault ?env ?c ''ns/foo''))"
    by (simp add: prod_eq_iff)
  have o: "akvsHasOutputSecret secretOnly" "\<not> akvsHasOutputConfigMap secretOnly"
    by (simp_all add: akvsHasOutputSecret_def akvsHasOutputConfigMap_def secretOnly_def exampleResource_def)
  have d: "secretDrift ?env secretOnly"
    by (simp add: secretDrift_def getSecretFromKeyVault_def example_defs)
  have z: "nativeWrites ?c = 0"
    by (simp add: nativeWrites_def exampleController_def)
  show ?thesis
    using h1 h2 h3 h4 h5 h6 h7 d z o
      C2_idempotent_single_output [OF h1 h2 h3 h4 h5 h6 h7']
    by simp
qed

end
